theory Spec2Isabelle
  imports Main "HOL-Library.Monad_Syntax"
begin

section \<open>Data model (db/tables.ts)\<close>

text \<open>
  The three tables of \<^verbatim>\<open>db/tables.ts\<close>. A column declared \<^verbatim>\<open>optional: true\<close> holds
  NULL or a text, so it is a \<open>string option\<close>; dates are points in time (\<open>nat\<close>); the
  chapter's \<^verbatim>\<open>orderIndex\<close> is a number that the actions only ever fill with integers.
  A table is the list of its rows. The uniqueness of the primary keys is enforced by the
  store and not by the action code; where a statement needs the uniqueness of an identifier
  it says so. The reference \<^verbatim>\<open>FanficStories.fandomId\<close> \<open>\<rightarrow>\<close> \<^verbatim>\<open>Fandoms.id\<close> is enforced by the
  store as well, when a story is inserted (see \<open>insert_FanficStories\<close>).
\<close>

record Fandom =
  fandom_id :: string
  fandom_userId :: "string option"
  fandom_name :: string
  fandom_canonType :: "string option"
  fandom_description :: "string option"
  fandom_isSystem :: bool
  fandom_createdAt :: nat
  fandom_updatedAt :: nat

record Story =
  story_id :: string
  story_userId :: string
  story_fandomId :: "string option"
  story_title :: string
  story_summary :: "string option"
  story_rating :: "string option"
  story_pairing :: "string option"
  story_tags :: "string option"
  story_status :: "string option"
  story_language :: "string option"
  story_createdAt :: nat
  story_updatedAt :: nat

record Chapter =
  chapter_id :: string
  chapter_storyId :: string
  chapter_orderIndex :: int
  chapter_title :: "string option"
  chapter_notes :: "string option"
  chapter_content :: string
  chapter_createdAt :: nat
  chapter_updatedAt :: nat

section \<open>Errors, request context and the store\<close>

datatype code = UNAUTHORIZED | NOT_FOUND | FORBIDDEN

text \<open>
  \<^verbatim>\<open>ActionError\<close> is what the handlers throw; \<^verbatim>\<open>ActionInputError\<close> is what
  \<^verbatim>\<open>defineAction\<close> throws when the input does not pass the action's schema.
  \<open>StoreError\<close> is what the store's client throws when the store refuses a statement; it
  is no \<^verbatim>\<open>ActionError\<close>, the handlers do not catch it, and the caller of the action sees
  it under the code \<^verbatim>\<open>INTERNAL_SERVER_ERROR\<close>.
\<close>

datatype error = ActionError code string | ActionInputError | StoreError

record user =
  user_id :: string

record Locals =
  locals_user :: "user option"

record ActionAPIContext =
  context_locals :: "Locals option"

datatype table = Fandoms | FanficStories | FanficChapters

datatype stmt = Select table | Insert table | Update table | Delete table

text \<open>
  The store holds the three tables and, so that statements about which store accesses an
  action performs can be made, the sequence of statements issued against it so far.
\<close>

record store =
  rows_Fandoms :: "Fandom list"
  rows_FanficStories :: "Story list"
  rows_FanficChapters :: "Chapter list"
  issued :: "stmt list"

type_synonym 'a action = "store \<Rightarrow> (error + 'a) \<times> store"

text \<open>\<^verbatim>\<open>await m\<close> followed by the rest of the handler: an error of \<open>m\<close> ends the handler.\<close>

definition await :: "'a action \<Rightarrow> ('a \<Rightarrow> 'b action) \<Rightarrow> 'b action" where
  "await m k s = (case m s of (Inl e, s') \<Rightarrow> (Inl e, s') | (Inr x, s') \<Rightarrow> k x s')"

definition throw :: "error \<Rightarrow> 'a action" where
  "throw e s = (Inl e, s)"

definition return :: "'a \<Rightarrow> 'a action" where
  "return x s = (Inr x, s)"

text \<open>The array destructuring \<^verbatim>\<open>const [x] = rows\<close>: the first row, or undefined.\<close>

definition first :: "'a list \<Rightarrow> 'a option" where
  "first xs = (case xs of [] \<Rightarrow> None | x # _ \<Rightarrow> Some x)"

text \<open>The truth value JavaScript gives an optional text: null and the empty text are falsy.\<close>

definition truthy :: "string option \<Rightarrow> bool" where
  "truthy v = (case v of None \<Rightarrow> False | Some t \<Rightarrow> t \<noteq> '''')"

subsection \<open>Statements\<close>

definition log :: "stmt \<Rightarrow> store \<Rightarrow> store" where
  "log q s = s\<lparr>issued := issued s @ [q]\<rparr>"

definition select_Fandoms :: "(Fandom \<Rightarrow> bool) \<Rightarrow> Fandom list action" where
  "select_Fandoms p s = (Inr (filter p (rows_Fandoms s)), log (Select Fandoms) s)"

definition select_FanficStories :: "(Story \<Rightarrow> bool) \<Rightarrow> Story list action" where
  "select_FanficStories p s = (Inr (filter p (rows_FanficStories s)), log (Select FanficStories) s)"

definition select_FanficChapters :: "(Chapter \<Rightarrow> bool) \<Rightarrow> Chapter list action" where
  "select_FanficChapters p s =
     (Inr (filter p (rows_FanficChapters s)), log (Select FanficChapters) s)"

text \<open>
  \<^verbatim>\<open>db.update(T).set(..).where(p).returning()\<close>: the rows that match, as updated. The one
  update that can write the referencing column \<^verbatim>\<open>fandomId\<close> writes null or the id of a
  fandom that the handler has just found (\<open>updateFanficStory_fandomId_referenced\<close> below),
  so that no update of this layer gives the store a row to refuse.
\<close>

definition update_Fandoms :: "(Fandom \<Rightarrow> Fandom) \<Rightarrow> (Fandom \<Rightarrow> bool) \<Rightarrow> Fandom list action" where
  "update_Fandoms upd p s =
     (Inr (map upd (filter p (rows_Fandoms s))),
      log (Update Fandoms)
        (s\<lparr>rows_Fandoms := map (\<lambda>r. if p r then upd r else r) (rows_Fandoms s)\<rparr>))"

definition update_FanficStories :: "(Story \<Rightarrow> Story) \<Rightarrow> (Story \<Rightarrow> bool) \<Rightarrow> Story list action" where
  "update_FanficStories upd p s =
     (Inr (map upd (filter p (rows_FanficStories s))),
      log (Update FanficStories)
        (s\<lparr>rows_FanficStories := map (\<lambda>r. if p r then upd r else r) (rows_FanficStories s)\<rparr>))"

definition update_FanficChapters ::
  "(Chapter \<Rightarrow> Chapter) \<Rightarrow> (Chapter \<Rightarrow> bool) \<Rightarrow> Chapter list action" where
  "update_FanficChapters upd p s =
     (Inr (map upd (filter p (rows_FanficChapters s))),
      log (Update FanficChapters)
        (s\<lparr>rows_FanficChapters := map (\<lambda>r. if p r then upd r else r) (rows_FanficChapters s)\<rparr>))"

text \<open>
  \<^verbatim>\<open>db.insert(T).values(row).returning()\<close>: the inserted row. The column \<^verbatim>\<open>fandomId\<close> is
  declared with \<^verbatim>\<open>references: () => Fandoms.columns.id\<close>: a row whose \<^verbatim>\<open>fandomId\<close> is not
  null and is the id of no fandom is refused, the statement throws and stores nothing.
\<close>

definition references_Fandoms :: "string option \<Rightarrow> store \<Rightarrow> bool" where
  "references_Fandoms v s =
     (case v of None \<Rightarrow> True | Some fid \<Rightarrow> fid \<in> set (map fandom_id (rows_Fandoms s)))"

definition insert_FanficStories :: "Story \<Rightarrow> Story list action" where
  "insert_FanficStories row s =
     (if references_Fandoms (story_fandomId row) s
      then (Inr [row],
            log (Insert FanficStories) (s\<lparr>rows_FanficStories := rows_FanficStories s @ [row]\<rparr>))
      else (Inl StoreError, log (Insert FanficStories) s))"

text \<open>\<^verbatim>\<open>db.delete(T).where(p)\<close>: the result carries \<^verbatim>\<open>rowsAffected\<close>.\<close>

definition delete_FanficChapters :: "(Chapter \<Rightarrow> bool) \<Rightarrow> nat action" where
  "delete_FanficChapters p s =
     (Inr (length (filter p (rows_FanficChapters s))),
      log (Delete FanficChapters)
        (s\<lparr>rows_FanficChapters := filter (\<lambda>r. \<not> p r) (rows_FanficChapters s)\<rparr>))"

section \<open>Authorization helpers\<close>

definition requireUser :: "ActionAPIContext \<Rightarrow> error + user" where
  "requireUser ctx =
     (case (case context_locals ctx of None \<Rightarrow> None | Some l \<Rightarrow> locals_user l) of
        None \<Rightarrow> Inl (ActionError UNAUTHORIZED ''You must be signed in to perform this action.'')
      | Some u \<Rightarrow> Inr u)"

definition ensureFandomAccessible :: "string \<Rightarrow> string \<Rightarrow> Fandom action" where
  "ensureFandomAccessible fandomId userId =
     await (select_Fandoms (\<lambda>r. fandom_id r = fandomId)) (\<lambda>found.
       case first found of
         None \<Rightarrow> throw (ActionError NOT_FOUND ''Fandom not found.'')
       | Some fandom \<Rightarrow>
           if truthy (fandom_userId fandom) \<and> fandom_userId fandom \<noteq> Some userId
              \<and> \<not> fandom_isSystem fandom
           then throw (ActionError FORBIDDEN ''You do not have access to this fandom.'')
           else return fandom)"

definition getOwnedStory :: "string \<Rightarrow> string \<Rightarrow> Story action" where
  "getOwnedStory storyId userId =
     await (select_FanficStories (\<lambda>r. story_id r = storyId \<and> story_userId r = userId)) (\<lambda>found.
       case first found of
         None \<Rightarrow> throw (ActionError NOT_FOUND ''Fanfic story not found.'')
       | Some story \<Rightarrow> return story)"

definition getOwnedChapter :: "string \<Rightarrow> string \<Rightarrow> string \<Rightarrow> Chapter action" where
  "getOwnedChapter chapterId storyId userId =
     await (getOwnedStory storyId userId) (\<lambda>_.
     await (select_FanficChapters (\<lambda>r. chapter_id r = chapterId \<and> chapter_storyId r = storyId))
       (\<lambda>found.
         case first found of
           None \<Rightarrow> throw (ActionError NOT_FOUND ''Chapter not found.'')
         | Some ch \<Rightarrow> return ch))"

section \<open>Input validation (the zod schemas of the actions)\<close>

text \<open>
  The input of an action is the JSON object the caller sends. A property that the object
  does not have reads as undefined. \<open>JOther\<close> stands for every JSON value that is neither
  null, a text nor an integral number (a boolean, a fractional number, an array, an object).
  An input that is not an object at all fails every schema below, as the object without
  properties does.
\<close>

datatype jsval = JUndefined | JNull | JString string | JInteger int | JOther

type_synonym jsobject = "string \<rightharpoonup> jsval"

definition field :: "jsobject \<Rightarrow> string \<Rightarrow> jsval" where
  "field obj k = (case obj k of None \<Rightarrow> JUndefined | Some v \<Rightarrow> v)"

text \<open>A schema returns the parsed value, or \<open>None\<close> when the value is rejected.\<close>

fun z_string :: "jsval \<Rightarrow> string option" where
  "z_string (JString t) = Some t"
| "z_string _ = None"

definition z_string_min1 :: "jsval \<Rightarrow> string option" where
  "z_string_min1 v = (case z_string v of None \<Rightarrow> None
                      | Some t \<Rightarrow> if 1 \<le> length t then Some t else None)"

fun z_number_int :: "jsval \<Rightarrow> int option" where
  "z_number_int (JInteger n) = Some n"
| "z_number_int _ = None"

text \<open>\<^verbatim>\<open>.optional()\<close> accepts undefined, and nothing else that the inner schema rejects.\<close>

definition z_optional :: "(jsval \<Rightarrow> 'a option) \<Rightarrow> jsval \<Rightarrow> 'a option option" where
  "z_optional inner v = (case v of JUndefined \<Rightarrow> Some None | _ \<Rightarrow> map_option Some (inner v))"

text \<open>\<^verbatim>\<open>v !== undefined\<close> on a parsed optional field.\<close>

definition defined :: "'a option \<Rightarrow> bool" where
  "defined v = (case v of None \<Rightarrow> False | Some _ \<Rightarrow> True)"

text \<open>
  \<^verbatim>\<open>defineAction({input, handler})\<close>: the input is parsed by the schema first; the handler
  runs on the parsed input only.
\<close>

definition defineAction ::
  "(jsobject \<Rightarrow> 'i option) \<Rightarrow> ('i \<Rightarrow> ActionAPIContext \<Rightarrow> 'o action)
     \<Rightarrow> jsobject \<Rightarrow> ActionAPIContext \<Rightarrow> 'o action" where
  "defineAction schema handler raw ctx =
     (case schema raw of None \<Rightarrow> throw ActionInputError | Some inp \<Rightarrow> handler inp ctx)"

section \<open>updateFandom\<close>

record updateFandomInput =
  uf_id :: string
  uf_name :: "string option"
  uf_canonType :: "string option"
  uf_description :: "string option"

definition updateFandom_schema :: "jsobject \<Rightarrow> updateFandomInput option" where
  "updateFandom_schema raw = do {
     i \<leftarrow> z_string_min1 (field raw ''id'');
     n \<leftarrow> z_optional z_string_min1 (field raw ''name'');
     c \<leftarrow> z_optional z_string (field raw ''canonType'');
     d \<leftarrow> z_optional z_string (field raw ''description'');
     if defined n \<or> defined c \<or> defined d
     then Some \<lparr>uf_id = i, uf_name = n, uf_canonType = c, uf_description = d\<rparr>
     else None
   }"

text \<open>The object given to \<^verbatim>\<open>.set(..)\<close>: a column is written only when its field is supplied.\<close>

definition updateFandom_set :: "nat \<Rightarrow> updateFandomInput \<Rightarrow> Fandom \<Rightarrow> Fandom" where
  "updateFandom_set now inp r =
     (let r1 = (case uf_name inp of None \<Rightarrow> r | Some v \<Rightarrow> r\<lparr>fandom_name := v\<rparr>);
          r2 = (case uf_canonType inp of None \<Rightarrow> r1 | Some v \<Rightarrow> r1\<lparr>fandom_canonType := Some v\<rparr>);
          r3 = (case uf_description inp of None \<Rightarrow> r2
                | Some v \<Rightarrow> r2\<lparr>fandom_description := Some v\<rparr>)
      in r3\<lparr>fandom_updatedAt := now\<rparr>)"

definition updateFandom_handler ::
  "nat \<Rightarrow> updateFandomInput \<Rightarrow> ActionAPIContext \<Rightarrow> Fandom option action" where
  "updateFandom_handler now inp ctx =
     (case requireUser ctx of Inl e \<Rightarrow> throw e | Inr user \<Rightarrow>
        await (ensureFandomAccessible (uf_id inp) (user_id user)) (\<lambda>fandom.
          if truthy (fandom_userId fandom) \<and> fandom_userId fandom \<noteq> Some (user_id user)
          then throw (ActionError FORBIDDEN ''You do not have access to update this fandom.'')
          else await (update_Fandoms (updateFandom_set now inp) (\<lambda>r. fandom_id r = uf_id inp))
                 (\<lambda>updated. return (first updated))))"

definition updateFandom :: "nat \<Rightarrow> jsobject \<Rightarrow> ActionAPIContext \<Rightarrow> Fandom option action" where
  "updateFandom now = defineAction updateFandom_schema (updateFandom_handler now)"

section \<open>createFanficStory\<close>

record createFanficStoryInput =
  cs_fandomId :: "string option"
  cs_title :: string
  cs_summary :: "string option"
  cs_rating :: "string option"
  cs_pairing :: "string option"
  cs_tags :: "string option"
  cs_status :: "string option"
  cs_language :: "string option"

definition createFanficStory_schema :: "jsobject \<Rightarrow> createFanficStoryInput option" where
  "createFanficStory_schema raw = do {
     f \<leftarrow> z_optional z_string (field raw ''fandomId'');
     t \<leftarrow> z_string_min1 (field raw ''title'');
     su \<leftarrow> z_optional z_string (field raw ''summary'');
     ra \<leftarrow> z_optional z_string (field raw ''rating'');
     pa \<leftarrow> z_optional z_string (field raw ''pairing'');
     ta \<leftarrow> z_optional z_string (field raw ''tags'');
     st \<leftarrow> z_optional z_string (field raw ''status'');
     la \<leftarrow> z_optional z_string (field raw ''language'');
     Some \<lparr>cs_fandomId = f, cs_title = t, cs_summary = su, cs_rating = ra, cs_pairing = pa,
           cs_tags = ta, cs_status = st, cs_language = la\<rparr>
   }"

text \<open>\<open>uuid\<close> is the result of \<^verbatim>\<open>crypto.randomUUID()\<close>, \<open>now\<close> that of \<^verbatim>\<open>new Date()\<close>.\<close>

definition createFanficStory_handler ::
  "string \<Rightarrow> nat \<Rightarrow> createFanficStoryInput \<Rightarrow> ActionAPIContext \<Rightarrow> Story option action" where
  "createFanficStory_handler uuid now inp ctx =
     (case requireUser ctx of Inl e \<Rightarrow> throw e | Inr user \<Rightarrow>
        await (if truthy (cs_fandomId inp)
               then (case cs_fandomId inp of None \<Rightarrow> return ()
                     | Some fid \<Rightarrow> await (ensureFandomAccessible fid (user_id user))
                                     (\<lambda>_. return ()))
               else return ()) (\<lambda>_.
        await (insert_FanficStories
                 \<lparr>story_id = uuid, story_userId = user_id user,
                  story_fandomId = cs_fandomId inp, story_title = cs_title inp,
                  story_summary = cs_summary inp, story_rating = cs_rating inp,
                  story_pairing = cs_pairing inp, story_tags = cs_tags inp,
                  story_status = cs_status inp, story_language = cs_language inp,
                  story_createdAt = now, story_updatedAt = now\<rparr>)
          (\<lambda>inserted. return (first inserted))))"

definition createFanficStory ::
  "string \<Rightarrow> nat \<Rightarrow> jsobject \<Rightarrow> ActionAPIContext \<Rightarrow> Story option action" where
  "createFanficStory uuid now =
     defineAction createFanficStory_schema (createFanficStory_handler uuid now)"

section \<open>updateFanficStory\<close>

text \<open>
  The handler tells three cases of \<^verbatim>\<open>input.fandomId\<close> apart: undefined (\<open>None\<close>), null
  (\<open>Some None\<close>) and a text (\<open>Some (Some t)\<close>). The schema yields the first and the last
  only.
\<close>

record updateFanficStoryInput =
  us_id :: string
  us_fandomId :: "string option option"
  us_title :: "string option"
  us_summary :: "string option"
  us_rating :: "string option"
  us_pairing :: "string option"
  us_tags :: "string option"
  us_status :: "string option"
  us_language :: "string option"

definition updateFanficStory_schema :: "jsobject \<Rightarrow> updateFanficStoryInput option" where
  "updateFanficStory_schema raw = do {
     i \<leftarrow> z_string_min1 (field raw ''id'');
     f \<leftarrow> z_optional z_string (field raw ''fandomId'');
     t \<leftarrow> z_optional z_string (field raw ''title'');
     su \<leftarrow> z_optional z_string (field raw ''summary'');
     ra \<leftarrow> z_optional z_string (field raw ''rating'');
     pa \<leftarrow> z_optional z_string (field raw ''pairing'');
     ta \<leftarrow> z_optional z_string (field raw ''tags'');
     st \<leftarrow> z_optional z_string (field raw ''status'');
     la \<leftarrow> z_optional z_string (field raw ''language'');
     if defined f \<or> defined t \<or> defined su \<or> defined ra \<or> defined pa \<or> defined ta
        \<or> defined st \<or> defined la
     then Some \<lparr>us_id = i, us_fandomId = map_option Some f, us_title = t, us_summary = su,
                us_rating = ra, us_pairing = pa, us_tags = ta, us_status = st,
                us_language = la\<rparr>
     else None
   }"

definition updateFanficStory_set :: "nat \<Rightarrow> updateFanficStoryInput \<Rightarrow> Story \<Rightarrow> Story" where
  "updateFanficStory_set now inp r =
     (let r1 = (case us_fandomId inp of None \<Rightarrow> r | Some v \<Rightarrow> r\<lparr>story_fandomId := v\<rparr>);
          r2 = (case us_title inp of None \<Rightarrow> r1 | Some v \<Rightarrow> r1\<lparr>story_title := v\<rparr>);
          r3 = (case us_summary inp of None \<Rightarrow> r2 | Some v \<Rightarrow> r2\<lparr>story_summary := Some v\<rparr>);
          r4 = (case us_rating inp of None \<Rightarrow> r3 | Some v \<Rightarrow> r3\<lparr>story_rating := Some v\<rparr>);
          r5 = (case us_pairing inp of None \<Rightarrow> r4 | Some v \<Rightarrow> r4\<lparr>story_pairing := Some v\<rparr>);
          r6 = (case us_tags inp of None \<Rightarrow> r5 | Some v \<Rightarrow> r5\<lparr>story_tags := Some v\<rparr>);
          r7 = (case us_status inp of None \<Rightarrow> r6 | Some v \<Rightarrow> r6\<lparr>story_status := Some v\<rparr>);
          r8 = (case us_language inp of None \<Rightarrow> r7 | Some v \<Rightarrow> r7\<lparr>story_language := Some v\<rparr>)
      in r8\<lparr>story_updatedAt := now\<rparr>)"

definition updateFanficStory_handler ::
  "nat \<Rightarrow> updateFanficStoryInput \<Rightarrow> ActionAPIContext \<Rightarrow> Story option action" where
  "updateFanficStory_handler now inp ctx =
     (case requireUser ctx of Inl e \<Rightarrow> throw e | Inr user \<Rightarrow>
        await (getOwnedStory (us_id inp) (user_id user)) (\<lambda>story.
        await (case us_fandomId inp of
                 Some (Some fid) \<Rightarrow> await (ensureFandomAccessible fid (user_id user))
                                     (\<lambda>_. return ())
               | _ \<Rightarrow> return ()) (\<lambda>_.
        await (update_FanficStories (updateFanficStory_set now inp)
                 (\<lambda>r. story_id r = us_id inp))
          (\<lambda>updated. return (first updated)))))"

definition updateFanficStory ::
  "nat \<Rightarrow> jsobject \<Rightarrow> ActionAPIContext \<Rightarrow> Story option action" where
  "updateFanficStory now = defineAction updateFanficStory_schema (updateFanficStory_handler now)"

section \<open>updateFanficChapter and deleteFanficChapter\<close>

record updateFanficChapterInput =
  uc_id :: string
  uc_storyId :: string
  uc_orderIndex :: "int option"
  uc_title :: "string option"
  uc_notes :: "string option"
  uc_content :: "string option"

definition updateFanficChapter_schema :: "jsobject \<Rightarrow> updateFanficChapterInput option" where
  "updateFanficChapter_schema raw = do {
     i \<leftarrow> z_string_min1 (field raw ''id'');
     s \<leftarrow> z_string_min1 (field raw ''storyId'');
     oi \<leftarrow> z_optional z_number_int (field raw ''orderIndex'');
     t \<leftarrow> z_optional z_string (field raw ''title'');
     n \<leftarrow> z_optional z_string (field raw ''notes'');
     c \<leftarrow> z_optional z_string (field raw ''content'');
     if defined oi \<or> defined t \<or> defined n \<or> defined c
     then Some \<lparr>uc_id = i, uc_storyId = s, uc_orderIndex = oi, uc_title = t, uc_notes = n,
                uc_content = c\<rparr>
     else None
   }"

definition updateFanficChapter_set ::
  "nat \<Rightarrow> updateFanficChapterInput \<Rightarrow> Chapter \<Rightarrow> Chapter" where
  "updateFanficChapter_set now inp r =
     (let r1 = (case uc_orderIndex inp of None \<Rightarrow> r | Some v \<Rightarrow> r\<lparr>chapter_orderIndex := v\<rparr>);
          r2 = (case uc_title inp of None \<Rightarrow> r1 | Some v \<Rightarrow> r1\<lparr>chapter_title := Some v\<rparr>);
          r3 = (case uc_notes inp of None \<Rightarrow> r2 | Some v \<Rightarrow> r2\<lparr>chapter_notes := Some v\<rparr>);
          r4 = (case uc_content inp of None \<Rightarrow> r3 | Some v \<Rightarrow> r3\<lparr>chapter_content := v\<rparr>)
      in r4\<lparr>chapter_updatedAt := now\<rparr>)"

definition updateFanficChapter_handler ::
  "nat \<Rightarrow> updateFanficChapterInput \<Rightarrow> ActionAPIContext \<Rightarrow> Chapter option action" where
  "updateFanficChapter_handler now inp ctx =
     (case requireUser ctx of Inl e \<Rightarrow> throw e | Inr user \<Rightarrow>
        await (getOwnedChapter (uc_id inp) (uc_storyId inp) (user_id user)) (\<lambda>_.
        await (update_FanficChapters (updateFanficChapter_set now inp)
                 (\<lambda>r. chapter_id r = uc_id inp))
          (\<lambda>updated. return (first updated))))"

definition updateFanficChapter ::
  "nat \<Rightarrow> jsobject \<Rightarrow> ActionAPIContext \<Rightarrow> Chapter option action" where
  "updateFanficChapter now =
     defineAction updateFanficChapter_schema (updateFanficChapter_handler now)"

record deleteFanficChapterInput =
  dc_id :: string
  dc_storyId :: string

definition deleteFanficChapter_schema :: "jsobject \<Rightarrow> deleteFanficChapterInput option" where
  "deleteFanficChapter_schema raw = do {
     i \<leftarrow> z_string_min1 (field raw ''id'');
     s \<leftarrow> z_string_min1 (field raw ''storyId'');
     Some \<lparr>dc_id = i, dc_storyId = s\<rparr>
   }"

text \<open>The part of the handler after the ownership check: the delete and the test of its result.\<close>

definition deleteFanficChapter_delete :: "deleteFanficChapterInput \<Rightarrow> unit action" where
  "deleteFanficChapter_delete inp =
     await (delete_FanficChapters (\<lambda>r. chapter_id r = dc_id inp)) (\<lambda>rowsAffected.
       if rowsAffected = 0 then throw (ActionError NOT_FOUND ''Chapter not found.'')
       else return ())"

definition deleteFanficChapter_handler ::
  "deleteFanficChapterInput \<Rightarrow> ActionAPIContext \<Rightarrow> unit action" where
  "deleteFanficChapter_handler inp ctx =
     (case requireUser ctx of Inl e \<Rightarrow> throw e | Inr user \<Rightarrow>
        await (getOwnedChapter (dc_id inp) (dc_storyId inp) (user_id user)) (\<lambda>_.
          deleteFanficChapter_delete inp))"

definition deleteFanficChapter :: "jsobject \<Rightarrow> ActionAPIContext \<Rightarrow> unit action" where
  "deleteFanficChapter = defineAction deleteFanficChapter_schema deleteFanficChapter_handler"

section \<open>A sample store\<close>

text \<open>
  Two signed-in callers and a store with one fandom of each kind: Alice's own, a system
  fandom owned by an administrator, a system fandom without owner, a fandom without owner
  that is not flagged system, and a fandom whose owner column holds the empty text.
\<close>

definition alice :: ActionAPIContext where
  "alice = \<lparr>context_locals = Some \<lparr>locals_user = Some \<lparr>user_id = ''alice''\<rparr>\<rparr>\<rparr>"

definition bob :: ActionAPIContext where
  "bob = \<lparr>context_locals = Some \<lparr>locals_user = Some \<lparr>user_id = ''bob''\<rparr>\<rparr>\<rparr>"

definition aliceFandom :: Fandom where
  "aliceFandom = \<lparr>fandom_id = ''f-alice'', fandom_userId = Some ''alice'',
     fandom_name = ''Harry Potter'', fandom_canonType = Some ''books'',
     fandom_description = None, fandom_isSystem = False,
     fandom_createdAt = 1, fandom_updatedAt = 1\<rparr>"

definition adminFandom :: Fandom where
  "adminFandom = \<lparr>fandom_id = ''f-admin'', fandom_userId = Some ''admin'',
     fandom_name = ''Marvel'', fandom_canonType = None,
     fandom_description = None, fandom_isSystem = True,
     fandom_createdAt = 1, fandom_updatedAt = 1\<rparr>"

definition sharedFandom :: Fandom where
  "sharedFandom = \<lparr>fandom_id = ''f-shared'', fandom_userId = None,
     fandom_name = ''Star Wars'', fandom_canonType = Some ''films'',
     fandom_description = None, fandom_isSystem = True,
     fandom_createdAt = 1, fandom_updatedAt = 1\<rparr>"

definition openFandom :: Fandom where
  "openFandom = \<lparr>fandom_id = ''f-open'', fandom_userId = None,
     fandom_name = ''Naruto'', fandom_canonType = Some ''anime'',
     fandom_description = None, fandom_isSystem = False,
     fandom_createdAt = 1, fandom_updatedAt = 1\<rparr>"

definition blankFandom :: Fandom where
  "blankFandom = \<lparr>fandom_id = ''f-blank'', fandom_userId = Some '''',
     fandom_name = ''Zelda'', fandom_canonType = Some ''game'',
     fandom_description = None, fandom_isSystem = False,
     fandom_createdAt = 1, fandom_updatedAt = 1\<rparr>"

definition aliceStory :: Story where
  "aliceStory = \<lparr>story_id = ''s1'', story_userId = ''alice'',
     story_fandomId = Some ''f-alice'', story_title = ''New Beginnings'',
     story_summary = Some ''After the war'', story_rating = Some ''G'',
     story_pairing = None, story_tags = None, story_status = Some ''idea'',
     story_language = None, story_createdAt = 2, story_updatedAt = 2\<rparr>"

definition aliceChapter :: Chapter where
  "aliceChapter = \<lparr>chapter_id = ''c1'', chapter_storyId = ''s1'', chapter_orderIndex = 1,
     chapter_title = Some ''One'', chapter_notes = None, chapter_content = ''It begins.'',
     chapter_createdAt = 3, chapter_updatedAt = 3\<rparr>"

definition sampleStore :: store where
  "sampleStore = \<lparr>rows_Fandoms = [aliceFandom, adminFandom, sharedFandom, openFandom, blankFandom],
     rows_FanficStories = [aliceStory], rows_FanficChapters = [aliceChapter], issued = []\<rparr>"

text \<open>
  The inputs that the callers send in the examples of the following sections, next to the
  parsed inputs and the rows they stand for.
\<close>

definition renameShared :: jsobject where
  "renameShared = [''id'' \<mapsto> JString ''f-shared'', ''name'' \<mapsto> JString ''Hijacked'']"

definition renameAdmin :: jsobject where
  "renameAdmin = [''id'' \<mapsto> JString ''f-admin'', ''name'' \<mapsto> JString ''Hijacked'']"

definition renameAdminInput :: updateFandomInput where
  "renameAdminInput = \<lparr>uf_id = ''f-admin'', uf_name = Some ''Hijacked'', uf_canonType = None,
     uf_description = None\<rparr>"

definition renameAliceInput :: updateFandomInput where
  "renameAliceInput = \<lparr>uf_id = ''f-alice'', uf_name = Some ''Hogwarts'', uf_canonType = None,
     uf_description = None\<rparr>"

definition clearFandom :: jsobject where
  "clearFandom = [''id'' \<mapsto> JString ''s1'', ''fandomId'' \<mapsto> JNull]"

definition clearFandomInput :: updateFanficStoryInput where
  "clearFandomInput = \<lparr>us_id = ''s1'', us_fandomId = Some None, us_title = None,
     us_summary = None, us_rating = None, us_pairing = None, us_tags = None, us_status = None,
     us_language = None\<rparr>"

definition blankFandomStory :: jsobject where
  "blankFandomStory = [''fandomId'' \<mapsto> JString '''', ''title'' \<mapsto> JString ''Untitled'']"

definition blankFandomStoryRow :: Story where
  "blankFandomStoryRow = \<lparr>story_id = ''uuid-1'', story_userId = ''alice'',
     story_fandomId = Some '''', story_title = ''Untitled'',
     story_summary = None, story_rating = None, story_pairing = None, story_tags = None,
     story_status = None, story_language = None, story_createdAt = 9, story_updatedAt = 9\<rparr>"

definition hiddenFandom :: Fandom where
  "hiddenFandom = \<lparr>fandom_id = '''', fandom_userId = Some ''admin'',
     fandom_name = ''Drafts'', fandom_canonType = None,
     fandom_description = None, fandom_isSystem = False,
     fandom_createdAt = 1, fandom_updatedAt = 1\<rparr>"

definition hiddenStore :: store where
  "hiddenStore = \<lparr>rows_Fandoms = [aliceFandom, hiddenFandom],
     rows_FanficStories = [aliceStory], rows_FanficChapters = [aliceChapter], issued = []\<rparr>"

definition blankFandomUpdate :: jsobject where
  "blankFandomUpdate = [''id'' \<mapsto> JString ''s1'', ''fandomId'' \<mapsto> JString '''']"

definition blankTitle :: jsobject where
  "blankTitle = [''id'' \<mapsto> JString ''s1'', ''title'' \<mapsto> JString '''']"

definition idsOnly :: jsobject where
  "idsOnly = [''id'' \<mapsto> JString ''c1'', ''storyId'' \<mapsto> JString ''s1'']"

definition deleteC1 :: jsobject where
  "deleteC1 = [''id'' \<mapsto> JString ''c1'', ''storyId'' \<mapsto> JString ''s1'']"

definition renameAlice :: jsobject where
  "renameAlice = [''id'' \<mapsto> JString ''f-alice'', ''name'' \<mapsto> JString ''Hogwarts'']"

definition retitle :: jsobject where
  "retitle = [''id'' \<mapsto> JString ''s1'', ''title'' \<mapsto> JString ''Second Try'']"

definition rewrite :: jsobject where
  "rewrite = [''id'' \<mapsto> JString ''c1'', ''storyId'' \<mapsto> JString ''s1'',
              ''content'' \<mapsto> JString ''It begins again.'']"

section \<open>Running the helpers\<close>

lemma filter_key_unique:
  "distinct (map k xs) \<Longrightarrow> x \<in> set xs \<Longrightarrow> filter (\<lambda>r. k r = k x) xs = [x]"
proof (induction xs)
  case Nil
  then show ?case by simp
next
  case (Cons y ys)
  show ?case
  proof (cases "y = x")
    case True
    with Cons.prems have "\<forall>r\<in>set ys. k r \<noteq> k x" by (auto simp: image_iff)
    then have "filter (\<lambda>r. k r = k x) ys = []" by (simp add: filter_empty_conv)
    with True show ?thesis by simp
  next
    case False
    with Cons.prems have "x \<in> set ys" "k y \<noteq> k x" "distinct (map k ys)"
      by (auto simp: image_iff)
    with Cons.IH show ?thesis by simp
  qed
qed

lemma first_simps [simp]: "first [] = None" "first (x # xs) = Some x"
  by (simp_all add: first_def)

lemma first_filter_None: "first (filter p xs) = None \<longleftrightarrow> (\<forall>x\<in>set xs. \<not> p x)"
  by (induction xs) (auto simp: first_def)

lemma first_filter_Some: "first (filter p xs) = Some x \<Longrightarrow> x \<in> set xs \<and> p x"
  by (induction xs) (auto simp: first_def split: if_splits)

lemma log_rows [simp]:
  "rows_Fandoms (log q s) = rows_Fandoms s"
  "rows_FanficStories (log q s) = rows_FanficStories s"
  "rows_FanficChapters (log q s) = rows_FanficChapters s"
  "issued (log q s) = issued s @ [q]"
  by (simp_all add: log_def)

lemma ensureFandomAccessible_run:
  "ensureFandomAccessible fid uid s =
     (case first (filter (\<lambda>r. fandom_id r = fid) (rows_Fandoms s)) of
        None \<Rightarrow> (Inl (ActionError NOT_FOUND ''Fandom not found.''), log (Select Fandoms) s)
      | Some f \<Rightarrow>
          if truthy (fandom_userId f) \<and> fandom_userId f \<noteq> Some uid \<and> \<not> fandom_isSystem f
          then (Inl (ActionError FORBIDDEN ''You do not have access to this fandom.''),
                log (Select Fandoms) s)
          else (Inr f, log (Select Fandoms) s))"
  by (simp add: ensureFandomAccessible_def await_def select_Fandoms_def throw_def return_def
      split: option.splits)

lemma getOwnedStory_run:
  "getOwnedStory sid uid s =
     (case first (filter (\<lambda>r. story_id r = sid \<and> story_userId r = uid) (rows_FanficStories s)) of
        None \<Rightarrow> (Inl (ActionError NOT_FOUND ''Fanfic story not found.''),
                 log (Select FanficStories) s)
      | Some st \<Rightarrow> (Inr st, log (Select FanficStories) s))"
  by (simp add: getOwnedStory_def await_def select_FanficStories_def throw_def return_def
      split: option.splits)

lemma getOwnedChapter_run:
  "getOwnedChapter cid sid uid s =
     (case first (filter (\<lambda>r. story_id r = sid \<and> story_userId r = uid) (rows_FanficStories s)) of
        None \<Rightarrow> (Inl (ActionError NOT_FOUND ''Fanfic story not found.''),
                 log (Select FanficStories) s)
      | Some st \<Rightarrow>
         (case first (filter (\<lambda>r. chapter_id r = cid \<and> chapter_storyId r = sid)
                        (rows_FanficChapters s)) of
            None \<Rightarrow> (Inl (ActionError NOT_FOUND ''Chapter not found.''),
                     log (Select FanficChapters) (log (Select FanficStories) s))
          | Some ch \<Rightarrow> (Inr ch, log (Select FanficChapters) (log (Select FanficStories) s))))"
  by (simp add: getOwnedChapter_def getOwnedStory_run await_def select_FanficChapters_def
      throw_def return_def split: option.splits)

section \<open>The access checks\<close>

lemma sampleStore_rows:
  "rows_Fandoms sampleStore = [aliceFandom, adminFandom, sharedFandom, openFandom, blankFandom]"
  "rows_FanficStories sampleStore = [aliceStory]"
  "rows_FanficChapters sampleStore = [aliceChapter]"
  "issued sampleStore = []"
  by (simp_all add: sampleStore_def)

lemma sample_fandom_ids:
  "fandom_id aliceFandom = ''f-alice''" "fandom_id adminFandom = ''f-admin''"
  "fandom_id sharedFandom = ''f-shared''" "fandom_id openFandom = ''f-open''"
  "fandom_id blankFandom = ''f-blank''"
  by (simp_all add: aliceFandom_def adminFandom_def sharedFandom_def openFandom_def
      blankFandom_def)

lemma sample_fandom_owners:
  "fandom_userId aliceFandom = Some ''alice''" "fandom_userId adminFandom = Some ''admin''"
  "fandom_userId sharedFandom = None" "fandom_userId openFandom = None"
  "fandom_userId blankFandom = Some ''''"
  "fandom_isSystem aliceFandom = False" "fandom_isSystem adminFandom = True"
  "fandom_isSystem sharedFandom = True" "fandom_isSystem openFandom = False"
  "fandom_isSystem blankFandom = False"
  by (simp_all add: aliceFandom_def adminFandom_def sharedFandom_def openFandom_def
      blankFandom_def)

text \<open>
  C1, as stated, fails: a fandom whose owner column holds the empty text has a non-null
  owner that differs from the caller and is not flagged system, and yet the check admits
  the caller, since the guard tests the owner for truthiness.
\<close>

theorem ensureFandomAccessible_blank_owner_counterexample:
  "fandom_userId blankFandom \<noteq> None \<and> fandom_userId blankFandom \<noteq> Some ''bob''
   \<and> \<not> fandom_isSystem blankFandom
   \<and> fst (ensureFandomAccessible ''f-blank'' ''bob'' sampleStore) = Inr blankFandom"
  by (simp add: ensureFandomAccessible_run sampleStore_rows sample_fandom_ids
      sample_fandom_owners truthy_def)

text \<open>
  C1, amended: \<open>ensureFandomAccessible\<close> fails with NOT_FOUND when no fandom has the given
  id. For the fandom with that id it fails with FORBIDDEN exactly when the owner is
  non-null, not the empty text and different from the caller, and the fandom is not
  flagged system; in every other case it returns the fandom: the caller's own fandoms,
  system fandoms owned by someone else, fandoms without owner whatever their flag.
\<close>

theorem ensureFandomAccessible_outcome:
  "((\<forall>f \<in> set (rows_Fandoms s). fandom_id f \<noteq> fid) \<longrightarrow>
      fst (ensureFandomAccessible fid uid s) = Inl (ActionError NOT_FOUND ''Fandom not found.''))
   \<and> (distinct (map fandom_id (rows_Fandoms s)) \<and> f \<in> set (rows_Fandoms s) \<and> fandom_id f = fid
        \<longrightarrow>
        fst (ensureFandomAccessible fid uid s) =
          (if (\<exists>owner. fandom_userId f = Some owner \<and> owner \<noteq> '''' \<and> owner \<noteq> uid)
              \<and> \<not> fandom_isSystem f
           then Inl (ActionError FORBIDDEN ''You do not have access to this fandom.'')
           else Inr f))"
proof (intro conjI impI)
  assume "\<forall>f \<in> set (rows_Fandoms s). fandom_id f \<noteq> fid"
  then have "first (filter (\<lambda>r. fandom_id r = fid) (rows_Fandoms s)) = None"
    by (simp add: first_filter_None)
  then show "fst (ensureFandomAccessible fid uid s)
             = Inl (ActionError NOT_FOUND ''Fandom not found.'')"
    by (simp add: ensureFandomAccessible_run)
next
  assume "distinct (map fandom_id (rows_Fandoms s)) \<and> f \<in> set (rows_Fandoms s)
          \<and> fandom_id f = fid"
  then have "filter (\<lambda>r. fandom_id r = fid) (rows_Fandoms s) = [f]"
    using filter_key_unique [of fandom_id "rows_Fandoms s" f] by simp
  then show "fst (ensureFandomAccessible fid uid s) =
          (if (\<exists>owner. fandom_userId f = Some owner \<and> owner \<noteq> '''' \<and> owner \<noteq> uid)
              \<and> \<not> fandom_isSystem f
           then Inl (ActionError FORBIDDEN ''You do not have access to this fandom.'')
           else Inr f)"
    by (cases "fandom_userId f") (auto simp: ensureFandomAccessible_run truthy_def)
qed

theorem ensureFandomAccessible_outcome_witness:
  "fst (ensureFandomAccessible ''f-none'' ''bob'' sampleStore)
     = Inl (ActionError NOT_FOUND ''Fandom not found.'')
   \<and> fst (ensureFandomAccessible ''f-alice'' ''bob'' sampleStore)
     = Inl (ActionError FORBIDDEN ''You do not have access to this fandom.'')
   \<and> fst (ensureFandomAccessible ''f-alice'' ''alice'' sampleStore) = Inr aliceFandom
   \<and> fst (ensureFandomAccessible ''f-admin'' ''bob'' sampleStore) = Inr adminFandom
   \<and> fst (ensureFandomAccessible ''f-shared'' ''bob'' sampleStore) = Inr sharedFandom
   \<and> fst (ensureFandomAccessible ''f-open'' ''bob'' sampleStore) = Inr openFandom"
proof -
  have ids: "distinct (map fandom_id (rows_Fandoms sampleStore))"
    by (simp add: sampleStore_rows sample_fandom_ids)
  have none: "\<forall>f \<in> set (rows_Fandoms sampleStore). fandom_id f \<noteq> ''f-none''"
    by (simp add: sampleStore_rows sample_fandom_ids)
  have mem: "aliceFandom \<in> set (rows_Fandoms sampleStore)"
    "adminFandom \<in> set (rows_Fandoms sampleStore)"
    "sharedFandom \<in> set (rows_Fandoms sampleStore)"
    "openFandom \<in> set (rows_Fandoms sampleStore)"
    by (simp_all add: sampleStore_rows)
  have 1: "fst (ensureFandomAccessible ''f-none'' ''bob'' sampleStore)
     = Inl (ActionError NOT_FOUND ''Fandom not found.'')"
    using ensureFandomAccessible_outcome [where s = sampleStore and fid = "''f-none''"
          and uid = "''bob''" and f = aliceFandom] none by blast
  have 2: "fst (ensureFandomAccessible ''f-alice'' ''bob'' sampleStore)
     = Inl (ActionError FORBIDDEN ''You do not have access to this fandom.'')"
    using ensureFandomAccessible_outcome [where s = sampleStore and fid = "''f-alice''"
          and uid = "''bob''" and f = aliceFandom] ids mem(1)
    by (simp add: sample_fandom_ids sample_fandom_owners)
  have 3: "fst (ensureFandomAccessible ''f-alice'' ''alice'' sampleStore) = Inr aliceFandom"
    using ensureFandomAccessible_outcome [where s = sampleStore and fid = "''f-alice''"
          and uid = "''alice''" and f = aliceFandom] ids mem(1)
    by (simp add: sample_fandom_ids sample_fandom_owners)
  have 4: "fst (ensureFandomAccessible ''f-admin'' ''bob'' sampleStore) = Inr adminFandom"
    using ensureFandomAccessible_outcome [where s = sampleStore and fid = "''f-admin''"
          and uid = "''bob''" and f = adminFandom] ids mem(2)
    by (simp add: sample_fandom_ids sample_fandom_owners)
  have 5: "fst (ensureFandomAccessible ''f-shared'' ''bob'' sampleStore) = Inr sharedFandom"
    using ensureFandomAccessible_outcome [where s = sampleStore and fid = "''f-shared''"
          and uid = "''bob''" and f = sharedFandom] ids mem(3)
    by (simp add: sample_fandom_ids sample_fandom_owners)
  have 6: "fst (ensureFandomAccessible ''f-open'' ''bob'' sampleStore) = Inr openFandom"
    using ensureFandomAccessible_outcome [where s = sampleStore and fid = "''f-open''"
          and uid = "''bob''" and f = openFandom] ids mem(4)
    by (simp add: sample_fandom_ids sample_fandom_owners)
  from 1 2 3 4 5 6 show ?thesis by blast
qed

text \<open>
  C2: \<open>getOwnedStory\<close> fails with NOT_FOUND when no story has the given id, and with the
  very same error when stories with that id exist but none belongs to the caller; it
  returns a story exactly when one with that id and that owner exists, and then that story
  (the one with that id, identifiers being unique). It writes nothing.
\<close>

theorem getOwnedStory_outcome:
  "((\<forall>st \<in> set (rows_FanficStories s). story_id st \<noteq> sid) \<longrightarrow>
      fst (getOwnedStory sid uid s) = Inl (ActionError NOT_FOUND ''Fanfic story not found.''))
   \<and> ((\<exists>st \<in> set (rows_FanficStories s). story_id st = sid)
       \<and> (\<forall>st \<in> set (rows_FanficStories s). story_id st = sid \<longrightarrow> story_userId st \<noteq> uid) \<longrightarrow>
      fst (getOwnedStory sid uid s) = Inl (ActionError NOT_FOUND ''Fanfic story not found.''))
   \<and> ((\<exists>found. fst (getOwnedStory sid uid s) = Inr found)
       = (\<exists>st \<in> set (rows_FanficStories s). story_id st = sid \<and> story_userId st = uid))
   \<and> (\<forall>found. fst (getOwnedStory sid uid s) = Inr found \<longrightarrow>
         found \<in> set (rows_FanficStories s) \<and> story_id found = sid \<and> story_userId found = uid)
   \<and> (distinct (map story_id (rows_FanficStories s)) \<and> st \<in> set (rows_FanficStories s)
       \<and> story_id st = sid \<and> story_userId st = uid \<longrightarrow>
         fst (getOwnedStory sid uid s) = Inr st)
   \<and> rows_Fandoms (snd (getOwnedStory sid uid s)) = rows_Fandoms s
   \<and> rows_FanficStories (snd (getOwnedStory sid uid s)) = rows_FanficStories s
   \<and> rows_FanficChapters (snd (getOwnedStory sid uid s)) = rows_FanficChapters s"
proof -
  let ?q = "first (filter (\<lambda>r. story_id r = sid \<and> story_userId r = uid) (rows_FanficStories s))"
  have none: "?q = None \<longleftrightarrow>
      (\<forall>r \<in> set (rows_FanficStories s). \<not> (story_id r = sid \<and> story_userId r = uid))"
    by (rule first_filter_None)
  have some: "\<And>x. ?q = Some x \<Longrightarrow>
      x \<in> set (rows_FanficStories s) \<and> story_id x = sid \<and> story_userId x = uid"
    by (drule first_filter_Some) simp
  have a: "(\<forall>st \<in> set (rows_FanficStories s). story_id st \<noteq> sid) \<longrightarrow>
      fst (getOwnedStory sid uid s) = Inl (ActionError NOT_FOUND ''Fanfic story not found.'')"
  proof
    assume "\<forall>st \<in> set (rows_FanficStories s). story_id st \<noteq> sid"
    then have "?q = None" unfolding none by blast
    then show "fst (getOwnedStory sid uid s)
               = Inl (ActionError NOT_FOUND ''Fanfic story not found.'')"
      by (simp add: getOwnedStory_run)
  qed
  have b: "(\<exists>st \<in> set (rows_FanficStories s). story_id st = sid)
       \<and> (\<forall>st \<in> set (rows_FanficStories s). story_id st = sid \<longrightarrow> story_userId st \<noteq> uid) \<longrightarrow>
      fst (getOwnedStory sid uid s) = Inl (ActionError NOT_FOUND ''Fanfic story not found.'')"
  proof
    assume "(\<exists>st \<in> set (rows_FanficStories s). story_id st = sid)
       \<and> (\<forall>st \<in> set (rows_FanficStories s). story_id st = sid \<longrightarrow> story_userId st \<noteq> uid)"
    then have "?q = None" unfolding none by blast
    then show "fst (getOwnedStory sid uid s)
               = Inl (ActionError NOT_FOUND ''Fanfic story not found.'')"
      by (simp add: getOwnedStory_run)
  qed
  have c: "(\<exists>found. fst (getOwnedStory sid uid s) = Inr found)
       = (\<exists>st \<in> set (rows_FanficStories s). story_id st = sid \<and> story_userId st = uid)"
  proof (cases ?q)
    case None
    then show ?thesis using none by (simp add: getOwnedStory_run)
  next
    case (Some x)
    then show ?thesis using some [OF Some] by (auto simp: getOwnedStory_run)
  qed
  have d: "\<forall>found. fst (getOwnedStory sid uid s) = Inr found \<longrightarrow>
         found \<in> set (rows_FanficStories s) \<and> story_id found = sid \<and> story_userId found = uid"
  proof (cases ?q)
    case None
    then show ?thesis by (simp add: getOwnedStory_run)
  next
    case (Some x)
    then show ?thesis using some [OF Some] by (simp add: getOwnedStory_run)
  qed
  have e: "distinct (map story_id (rows_FanficStories s)) \<and> st \<in> set (rows_FanficStories s)
       \<and> story_id st = sid \<and> story_userId st = uid \<longrightarrow>
         fst (getOwnedStory sid uid s) = Inr st"
  proof
    assume h: "distinct (map story_id (rows_FanficStories s)) \<and> st \<in> set (rows_FanficStories s)
       \<and> story_id st = sid \<and> story_userId st = uid"
    then have one: "filter (\<lambda>r. story_id r = sid) (rows_FanficStories s) = [st]"
      using filter_key_unique [of story_id "rows_FanficStories s" st] by simp
    have "filter (\<lambda>r. story_id r = sid \<and> story_userId r = uid) (rows_FanficStories s)
          = filter (\<lambda>r. story_userId r = uid) (filter (\<lambda>r. story_id r = sid) (rows_FanficStories s))"
      by (simp add: conj_commute)
    with one h have "?q = Some st" by simp
    then show "fst (getOwnedStory sid uid s) = Inr st" by (simp add: getOwnedStory_run)
  qed
  have f: "rows_Fandoms (snd (getOwnedStory sid uid s)) = rows_Fandoms s"
    "rows_FanficStories (snd (getOwnedStory sid uid s)) = rows_FanficStories s"
    "rows_FanficChapters (snd (getOwnedStory sid uid s)) = rows_FanficChapters s"
    by (simp_all add: getOwnedStory_run split: option.splits)
  from a b c d e f show ?thesis by blast
qed

lemma sample_story_fields:
  "story_id aliceStory = ''s1''" "story_userId aliceStory = ''alice''"
  by (simp_all add: aliceStory_def)

theorem getOwnedStory_outcome_witness:
  "fst (getOwnedStory ''s2'' ''bob'' sampleStore)
     = Inl (ActionError NOT_FOUND ''Fanfic story not found.'')
   \<and> fst (getOwnedStory ''s1'' ''bob'' sampleStore)
     = Inl (ActionError NOT_FOUND ''Fanfic story not found.'')
   \<and> fst (getOwnedStory ''s1'' ''alice'' sampleStore) = Inr aliceStory"
proof -
  have absent: "\<forall>st \<in> set (rows_FanficStories sampleStore). story_id st \<noteq> ''s2''"
    by (simp add: sampleStore_rows sample_story_fields)
  have foreign: "(\<exists>st \<in> set (rows_FanficStories sampleStore). story_id st = ''s1'')
      \<and> (\<forall>st \<in> set (rows_FanficStories sampleStore).
            story_id st = ''s1'' \<longrightarrow> story_userId st \<noteq> ''bob'')"
    by (simp add: sampleStore_rows sample_story_fields)
  have own: "distinct (map story_id (rows_FanficStories sampleStore))
      \<and> aliceStory \<in> set (rows_FanficStories sampleStore)
      \<and> story_id aliceStory = ''s1'' \<and> story_userId aliceStory = ''alice''"
    by (simp add: sampleStore_rows sample_story_fields)
  have 1: "fst (getOwnedStory ''s2'' ''bob'' sampleStore)
     = Inl (ActionError NOT_FOUND ''Fanfic story not found.'')"
    using getOwnedStory_outcome [where s = sampleStore and sid = "''s2''" and uid = "''bob''"
          and st = aliceStory] absent by blast
  have 2: "fst (getOwnedStory ''s1'' ''bob'' sampleStore)
     = Inl (ActionError NOT_FOUND ''Fanfic story not found.'')"
    using getOwnedStory_outcome [where s = sampleStore and sid = "''s1''" and uid = "''bob''"
          and st = aliceStory] foreign by blast
  have 3: "fst (getOwnedStory ''s1'' ''alice'' sampleStore) = Inr aliceStory"
    using getOwnedStory_outcome [where s = sampleStore and sid = "''s1''" and uid = "''alice''"
          and st = aliceStory] own by blast
  from 1 2 3 show ?thesis by blast
qed

section \<open>updateFandom: who may update\<close>

lemma requireUser_sample:
  "requireUser alice = Inr \<lparr>user_id = ''alice''\<rparr>" "requireUser bob = Inr \<lparr>user_id = ''bob''\<rparr>"
  by (simp_all add: requireUser_def alice_def bob_def)

lemma updateFandom_handler_run:
  assumes "requireUser ctx = Inr u"
  shows "updateFandom_handler now inp ctx s =
     (case first (filter (\<lambda>r. fandom_id r = uf_id inp) (rows_Fandoms s)) of
        None \<Rightarrow> (Inl (ActionError NOT_FOUND ''Fandom not found.''), log (Select Fandoms) s)
      | Some f \<Rightarrow>
          if truthy (fandom_userId f) \<and> fandom_userId f \<noteq> Some (user_id u)
          then (Inl (ActionError FORBIDDEN
                       (if fandom_isSystem f
                        then ''You do not have access to update this fandom.''
                        else ''You do not have access to this fandom.'')),
                log (Select Fandoms) s)
          else (Inr (first (map (updateFandom_set now inp)
                              (filter (\<lambda>r. fandom_id r = uf_id inp) (rows_Fandoms s)))),
                log (Update Fandoms)
                  ((log (Select Fandoms) s)
                     \<lparr>rows_Fandoms :=
                        map (\<lambda>r. if fandom_id r = uf_id inp then updateFandom_set now inp r else r)
                          (rows_Fandoms s)\<rparr>)))"
  using assms
  by (auto simp: updateFandom_handler_def ensureFandomAccessible_run await_def throw_def
      return_def update_Fandoms_def split: option.splits)

lemma updateFandom_run:
  assumes "updateFandom_schema raw = Some inp"
  shows "updateFandom now raw ctx s = updateFandom_handler now inp ctx s"
  using assms by (simp add: updateFandom_def defineAction_def)

lemma renameShared_parsed:
  "updateFandom_schema renameShared =
     Some \<lparr>uf_id = ''f-shared'', uf_name = Some ''Hijacked'', uf_canonType = None,
           uf_description = None\<rparr>"
  by (simp add: updateFandom_schema_def renameShared_def field_def z_string_min1_def
      z_optional_def defined_def)

lemma renameAdmin_parsed:
  "updateFandom_schema renameAdmin =
     Some \<lparr>uf_id = ''f-admin'', uf_name = Some ''Hijacked'', uf_canonType = None,
           uf_description = None\<rparr>"
  by (simp add: updateFandom_schema_def renameAdmin_def field_def z_string_min1_def
      z_optional_def defined_def)

text \<open>
  C3, as stated, fails: Bob, an ordinary signed-in user, renames the system fandom that
  has no owner. Both guards of \<open>updateFandom\<close> test the owner for truthiness first, so
  neither rejects a fandom without owner, whatever its flag.
\<close>

theorem updateFandom_shared_system_counterexample:
  "fandom_userId sharedFandom = None \<and> fandom_isSystem sharedFandom
   \<and> sharedFandom \<in> set (rows_Fandoms sampleStore)
   \<and> fst (updateFandom 9 renameShared bob sampleStore)
       = Inr (Some (sharedFandom\<lparr>fandom_name := ''Hijacked'', fandom_updatedAt := 9\<rparr>))
   \<and> rows_Fandoms (snd (updateFandom 9 renameShared bob sampleStore))
       = [aliceFandom, adminFandom,
          sharedFandom\<lparr>fandom_name := ''Hijacked'', fandom_updatedAt := 9\<rparr>,
          openFandom, blankFandom]"
  by (simp add: updateFandom_run [OF renameShared_parsed]
      updateFandom_handler_run [OF requireUser_sample(2)]
      sampleStore_rows sample_fandom_ids sample_fandom_owners truthy_def updateFandom_set_def)

text \<open>
  C3, amended: a fandom without owner is mutable by every signed-in user, flagged system
  or not: \<open>updateFandom\<close> with a valid input succeeds on it and writes the row. What
  \<open>updateFandom\<close> refuses with FORBIDDEN is exactly the fandoms whose owner is non-null,
  not the empty text and different from the caller; the system flag plays no part.
\<close>

theorem updateFandom_ownerless_mutable:
  assumes "updateFandom_schema raw = Some inp" and "requireUser ctx = Inr u"
    and "distinct (map fandom_id (rows_Fandoms s))"
    and "f \<in> set (rows_Fandoms s)" and "fandom_id f = uf_id inp"
  shows "(fandom_userId f = None \<longrightarrow>
            fst (updateFandom now raw ctx s) = Inr (Some (updateFandom_set now inp f))
            \<and> rows_Fandoms (snd (updateFandom now raw ctx s))
                = map (\<lambda>r. if fandom_id r = fandom_id f then updateFandom_set now inp r else r)
                    (rows_Fandoms s))
         \<and> ((\<exists>msg. fst (updateFandom now raw ctx s) = Inl (ActionError FORBIDDEN msg))
              = (\<exists>owner. fandom_userId f = Some owner \<and> owner \<noteq> '''' \<and> owner \<noteq> user_id u))"
proof -
  have one: "filter (\<lambda>r. fandom_id r = uf_id inp) (rows_Fandoms s) = [f]"
    using filter_key_unique [of fandom_id "rows_Fandoms s" f] assms(3,4,5) by simp
  show ?thesis
    by (cases "fandom_userId f")
       (auto simp: updateFandom_run [OF assms(1)] updateFandom_handler_run [OF assms(2)]
          one assms(5) truthy_def)
qed

theorem updateFandom_ownerless_mutable_witness:
  "fst (updateFandom 9 renameShared bob sampleStore)
     = Inr (Some (sharedFandom\<lparr>fandom_name := ''Hijacked'', fandom_updatedAt := 9\<rparr>))
   \<and> (\<exists>msg. fst (updateFandom 9 renameAdmin bob sampleStore)
               = Inl (ActionError FORBIDDEN msg))"
proof -
  have ids: "distinct (map fandom_id (rows_Fandoms sampleStore))"
    by (simp add: sampleStore_rows sample_fandom_ids)
  have mem: "sharedFandom \<in> set (rows_Fandoms sampleStore)"
    "adminFandom \<in> set (rows_Fandoms sampleStore)"
    by (simp_all add: sampleStore_rows)
  have 1: "fst (updateFandom 9 renameShared bob sampleStore)
     = Inr (Some (sharedFandom\<lparr>fandom_name := ''Hijacked'', fandom_updatedAt := 9\<rparr>))"
    using updateFandom_ownerless_mutable [OF renameShared_parsed requireUser_sample(2) ids mem(1),
            of 9]
    by (simp add: sample_fandom_ids sample_fandom_owners updateFandom_set_def)
  have 2: "\<exists>msg. fst (updateFandom 9 renameAdmin bob sampleStore)
               = Inl (ActionError FORBIDDEN msg)"
    using updateFandom_ownerless_mutable [OF renameAdmin_parsed requireUser_sample(2) ids mem(2),
            of 9]
    by (simp add: sample_fandom_ids sample_fandom_owners)
  from 1 2 show ?thesis by blast
qed

text \<open>
  C4, as stated, fails: the access check admits Bob to the system fandom that the
  administrator owns, and the second guard of \<open>updateFandom\<close> then rejects him. The second
  guard is what keeps system fandoms with an owner from being updated by everybody.
\<close>

theorem updateFandom_second_guard_counterexample:
  "fst (ensureFandomAccessible ''f-admin'' ''bob'' sampleStore) = Inr adminFandom
   \<and> fst (updateFandom 9 renameAdmin bob sampleStore)
       = Inl (ActionError FORBIDDEN ''You do not have access to update this fandom.'')"
  by (simp add: ensureFandomAccessible_run updateFandom_run [OF renameAdmin_parsed]
      updateFandom_handler_run [OF requireUser_sample(2)]
      sampleStore_rows sample_fandom_ids sample_fandom_owners truthy_def)

text \<open>
  C4, amended: the second guard is redundant for the fandoms that are not flagged system:
  when the access check admits the caller to such a fandom, the second guard passes and the
  handler goes on to the update. For a system fandom that the access check admits, the
  second guard rejects exactly when the owner is non-null, not the empty text and
  different from the caller.
\<close>

theorem updateFandom_second_guard:
  assumes "requireUser ctx = Inr u"
    and "fst (ensureFandomAccessible (uf_id inp) (user_id u) s) = Inr f"
  shows "(\<not> fandom_isSystem f \<longrightarrow>
            \<not> (truthy (fandom_userId f) \<and> fandom_userId f \<noteq> Some (user_id u))
            \<and> (\<exists>res. fst (updateFandom_handler now inp ctx s) = Inr res))
         \<and> (fandom_isSystem f \<longrightarrow>
              (fst (updateFandom_handler now inp ctx s)
                 = Inl (ActionError FORBIDDEN ''You do not have access to update this fandom.''))
              = (\<exists>owner. fandom_userId f = Some owner \<and> owner \<noteq> '''' \<and> owner \<noteq> user_id u))"
proof (cases "first (filter (\<lambda>r. fandom_id r = uf_id inp) (rows_Fandoms s))")
  case None
  with assms(2) show ?thesis by (simp add: ensureFandomAccessible_run)
next
  case (Some g)
  with assms(2) have "g = f" by (simp add: ensureFandomAccessible_run split: if_splits)
  with Some assms(2) show ?thesis
    by (cases "fandom_userId f")
       (auto simp: ensureFandomAccessible_run updateFandom_handler_run [OF assms(1)] truthy_def
          split: if_splits)
qed

theorem updateFandom_second_guard_witness:
  "(\<exists>res. fst (updateFandom_handler 9 renameAliceInput alice sampleStore) = Inr res)
   \<and> fst (updateFandom_handler 9 renameAdminInput bob sampleStore)
       = Inl (ActionError FORBIDDEN ''You do not have access to update this fandom.'')"
proof -
  have a: "fst (ensureFandomAccessible (uf_id renameAliceInput) (user_id \<lparr>user_id = ''alice''\<rparr>)
                  sampleStore) = Inr aliceFandom"
    by (simp add: ensureFandomAccessible_run renameAliceInput_def sampleStore_rows
        sample_fandom_ids sample_fandom_owners truthy_def)
  have b: "fst (ensureFandomAccessible (uf_id renameAdminInput) (user_id \<lparr>user_id = ''bob''\<rparr>)
                  sampleStore) = Inr adminFandom"
    by (simp add: ensureFandomAccessible_run renameAdminInput_def sampleStore_rows
        sample_fandom_ids sample_fandom_owners truthy_def)
  have 1: "\<exists>res. fst (updateFandom_handler 9 renameAliceInput alice sampleStore) = Inr res"
    using updateFandom_second_guard [OF requireUser_sample(1) a, of 9]
    by (simp add: sample_fandom_owners)
  have 2: "fst (updateFandom_handler 9 renameAdminInput bob sampleStore)
       = Inl (ActionError FORBIDDEN ''You do not have access to update this fandom.'')"
    using updateFandom_second_guard [OF requireUser_sample(2) b, of 9]
    by (simp add: sample_fandom_owners)
  from 1 2 show ?thesis by blast
qed

section \<open>Stories: what the schemas let through\<close>

lemma z_optional_simps [simp]:
  "z_optional inner JUndefined = Some None"
  "z_optional inner JNull = map_option Some (inner JNull)"
  "z_optional inner (JString t) = map_option Some (inner (JString t))"
  "z_optional inner (JInteger n) = map_option Some (inner (JInteger n))"
  "z_optional inner JOther = map_option Some (inner JOther)"
  by (simp_all add: z_optional_def)

lemma z_string_min1_simps [simp]:
  "z_string_min1 (JString t) = (if t = [] then None else Some t)"
  "z_string_min1 JUndefined = None" "z_string_min1 JNull = None"
  "z_string_min1 (JInteger n) = None" "z_string_min1 JOther = None"
  by (simp_all add: z_string_min1_def Suc_le_eq)

lemma defined_simps [simp]: "defined None = False" "defined (Some x) = True"
  by (simp_all add: defined_def)

text \<open>
  The schema of \<open>updateFanficStory\<close> declares \<^verbatim>\<open>fandomId\<close> as an optional text, and an
  optional text is not null: every input whose \<^verbatim>\<open>fandomId\<close> is null is rejected.
\<close>

lemma updateFanficStory_schema_null:
  "field raw ''fandomId'' = JNull \<Longrightarrow> updateFanficStory_schema raw = None"
  by (simp add: updateFanficStory_schema_def)

text \<open>
  The handler, for its part, is written for a null \<^verbatim>\<open>fandomId\<close>: given one, it asks for no
  fandom and clears the column. The schema keeps that input from ever reaching it.
\<close>

lemma updateFanficStory_handler_null:
  "updateFanficStory_handler 9 clearFandomInput alice sampleStore =
     (Inr (Some (aliceStory\<lparr>story_fandomId := None, story_updatedAt := 9\<rparr>)),
      sampleStore\<lparr>rows_FanficStories := [aliceStory\<lparr>story_fandomId := None, story_updatedAt := 9\<rparr>],
                  issued := [Select FanficStories, Update FanficStories]\<rparr>)"
  by (simp add: updateFanficStory_handler_def requireUser_sample getOwnedStory_run await_def
      return_def update_FanficStories_def updateFanficStory_set_def clearFandomInput_def
      sampleStore_def log_def aliceStory_def)

text \<open>
  C5 (the code departs from the claim): Alice, who owns the story, sends
  \<^verbatim>\<open>{id: "s1", fandomId: null}\<close>. The action fails at input validation and leaves the store
  as it was, the story's fandom included; no statement is issued.
\<close>

theorem updateFanficStory_null_fandomId_rejected:
  "updateFanficStory 9 clearFandom alice sampleStore = (Inl ActionInputError, sampleStore)
   \<and> story_fandomId aliceStory = Some ''f-alice''"
  by (simp add: updateFanficStory_def defineAction_def updateFanficStory_schema_null
      clearFandom_def field_def throw_def aliceStory_def)

lemma blankFandomStory_parsed:
  "createFanficStory_schema blankFandomStory =
     Some \<lparr>cs_fandomId = Some '''', cs_title = ''Untitled'', cs_summary = None,
           cs_rating = None, cs_pairing = None, cs_tags = None, cs_status = None,
           cs_language = None\<rparr>"
  by (simp add: createFanficStory_schema_def blankFandomStory_def field_def)

text \<open>
  The sibling \<open>updateFanficStory\<close> tests the supplied \<^verbatim>\<open>fandomId\<close> with
  \<^verbatim>\<open>!== undefined && !== null\<close>: given the empty text it does run the access check, which
  fails with NOT_FOUND.
\<close>

lemma updateFanficStory_blank_fandomId_checked:
  "fst (updateFanficStory 9 blankFandomUpdate alice sampleStore)
     = Inl (ActionError NOT_FOUND ''Fandom not found.'')
   \<and> issued (snd (updateFanficStory 9 blankFandomUpdate alice sampleStore))
       = [Select FanficStories, Select Fandoms]"
proof -
  have "updateFanficStory_schema blankFandomUpdate =
     Some \<lparr>us_id = ''s1'', us_fandomId = Some (Some ''''), us_title = None,
           us_summary = None, us_rating = None, us_pairing = None, us_tags = None,
           us_status = None, us_language = None\<rparr>"
    by (simp add: updateFanficStory_schema_def blankFandomUpdate_def field_def)
  then show ?thesis
    by (simp add: updateFanficStory_def defineAction_def updateFanficStory_handler_def
        requireUser_sample getOwnedStory_run ensureFandomAccessible_run await_def throw_def
        sampleStore_rows sample_story_fields sample_fandom_ids)
qed

text \<open>
  Where a fandom with the id \<^verbatim>\<open>""\<close> exists, the store has nothing to refuse: the fandom
  below is private to the administrator, \<open>ensureFandomAccessible\<close> denies it to Alice, and
  \<open>createFanficStory\<close> stores Alice's story under it without having asked.
\<close>

lemma createFanficStory_blank_fandomId_private:
  "fst (ensureFandomAccessible '''' ''alice'' hiddenStore)
     = Inl (ActionError FORBIDDEN ''You do not have access to this fandom.'')
   \<and> fst (createFanficStory ''uuid-1'' 9 blankFandomStory alice hiddenStore)
       = Inr (Some blankFandomStoryRow)
   \<and> rows_FanficStories (snd (createFanficStory ''uuid-1'' 9 blankFandomStory alice hiddenStore))
       = [aliceStory, blankFandomStoryRow]
   \<and> issued (snd (createFanficStory ''uuid-1'' 9 blankFandomStory alice hiddenStore))
       = [Insert FanficStories]"
  by (simp add: ensureFandomAccessible_run createFanficStory_def defineAction_def
      blankFandomStory_parsed createFanficStory_handler_def requireUser_sample truthy_def
      await_def return_def insert_FanficStories_def references_Fandoms_def hiddenStore_def
      hiddenFandom_def sample_fandom_ids blankFandomStoryRow_def log_def)

text \<open>
  C6 (the code departs from the claim): Alice creates a story with the supplied
  \<^verbatim>\<open>fandomId\<close> \<^verbatim>\<open>""\<close>. No fandom has that id. The handler's \<^verbatim>\<open>if (input.fandomId)\<close> takes
  the empty text for absent: no fandom is looked up, the only statement issued is the
  insert. The store refuses the row, whose \<^verbatim>\<open>fandomId\<close> references no fandom, so the
  operation fails, yet not with the error of the access check, and the stories are as they
  were.
\<close>

theorem createFanficStory_blank_fandomId_unchecked:
  "'''' \<notin> set (map fandom_id (rows_Fandoms sampleStore))
   \<and> fst (ensureFandomAccessible '''' ''alice'' sampleStore)
       = Inl (ActionError NOT_FOUND ''Fandom not found.'')
   \<and> fst (createFanficStory ''uuid-1'' 9 blankFandomStory alice sampleStore) = Inl StoreError
   \<and> issued (snd (createFanficStory ''uuid-1'' 9 blankFandomStory alice sampleStore))
       = [Insert FanficStories]
   \<and> Select Fandoms
       \<notin> set (issued (snd (createFanficStory ''uuid-1'' 9 blankFandomStory alice sampleStore)))
   \<and> rows_FanficStories (snd (createFanficStory ''uuid-1'' 9 blankFandomStory alice sampleStore))
       = [aliceStory]"
  by (simp add: ensureFandomAccessible_run createFanficStory_def defineAction_def
      blankFandomStory_parsed createFanficStory_handler_def requireUser_sample truthy_def
      await_def return_def insert_FanficStories_def references_Fandoms_def sampleStore_rows
      sample_fandom_ids)

lemma blankTitle_parsed:
  "updateFanficStory_schema blankTitle =
     Some \<lparr>us_id = ''s1'', us_fandomId = None, us_title = Some '''', us_summary = None,
           us_rating = None, us_pairing = None, us_tags = None, us_status = None,
           us_language = None\<rparr>"
  by (simp add: updateFanficStory_schema_def blankTitle_def field_def)

text \<open>
  The first half of C7 holds: \<open>createFanficStory\<close> rejects an empty title, as it rejects
  every title that is not a text.
\<close>

lemma createFanficStory_empty_title_rejected:
  "field raw ''title'' = JString '''' \<Longrightarrow>
     createFanficStory uuid now raw ctx s = (Inl ActionInputError, s)"
  by (simp add: createFanficStory_def defineAction_def createFanficStory_schema_def throw_def
      split: Option.bind_splits)

text \<open>
  C7 (the code departs from the claim): Alice updates her story with \<^verbatim>\<open>{id: "s1", title: ""}\<close>.
  The schema of \<open>updateFanficStory\<close> asks no minimal length of the title, the input is
  accepted, and the row is written with the empty title.
\<close>

theorem updateFanficStory_blank_title_written:
  "fst (updateFanficStory 9 blankTitle alice sampleStore)
     = Inr (Some (aliceStory\<lparr>story_title := '''', story_updatedAt := 9\<rparr>))
   \<and> rows_FanficStories (snd (updateFanficStory 9 blankTitle alice sampleStore))
       = [aliceStory\<lparr>story_title := '''', story_updatedAt := 9\<rparr>]
   \<and> story_title (aliceStory\<lparr>story_title := '''', story_updatedAt := 9\<rparr>) = ''''"
  by (simp add: updateFanficStory_def defineAction_def blankTitle_parsed
      updateFanficStory_handler_def requireUser_sample getOwnedStory_run await_def return_def
      update_FanficStories_def updateFanficStory_set_def sampleStore_rows sample_story_fields)

section \<open>Updates without a field\<close>

text \<open>
  C8: \<open>updateFandom\<close>, \<open>updateFanficStory\<close> and \<open>updateFanficChapter\<close>, called with none
  of their optional fields, fail with the input-validation error, whatever the rest of the
  input, the caller and the store are; the store comes back as it was, the record of issued
  statements included, so that nothing was read and nothing written.
\<close>

theorem update_without_fields_rejected:
  "(field raw ''name'' = JUndefined \<and> field raw ''canonType'' = JUndefined
      \<and> field raw ''description'' = JUndefined \<longrightarrow>
        updateFandom now raw ctx s = (Inl ActionInputError, s))
   \<and> (field raw ''fandomId'' = JUndefined \<and> field raw ''title'' = JUndefined
      \<and> field raw ''summary'' = JUndefined \<and> field raw ''rating'' = JUndefined
      \<and> field raw ''pairing'' = JUndefined \<and> field raw ''tags'' = JUndefined
      \<and> field raw ''status'' = JUndefined \<and> field raw ''language'' = JUndefined \<longrightarrow>
        updateFanficStory now raw ctx s = (Inl ActionInputError, s))
   \<and> (field raw ''orderIndex'' = JUndefined \<and> field raw ''title'' = JUndefined
      \<and> field raw ''notes'' = JUndefined \<and> field raw ''content'' = JUndefined \<longrightarrow>
        updateFanficChapter now raw ctx s = (Inl ActionInputError, s))"
proof (intro conjI impI)
  assume "field raw ''name'' = JUndefined \<and> field raw ''canonType'' = JUndefined
      \<and> field raw ''description'' = JUndefined"
  then have "updateFandom_schema raw = None"
    by (simp add: updateFandom_schema_def split: Option.bind_splits)
  then show "updateFandom now raw ctx s = (Inl ActionInputError, s)"
    by (simp add: updateFandom_def defineAction_def throw_def)
next
  assume "field raw ''fandomId'' = JUndefined \<and> field raw ''title'' = JUndefined
      \<and> field raw ''summary'' = JUndefined \<and> field raw ''rating'' = JUndefined
      \<and> field raw ''pairing'' = JUndefined \<and> field raw ''tags'' = JUndefined
      \<and> field raw ''status'' = JUndefined \<and> field raw ''language'' = JUndefined"
  then have "updateFanficStory_schema raw = None"
    by (simp add: updateFanficStory_schema_def split: Option.bind_splits)
  then show "updateFanficStory now raw ctx s = (Inl ActionInputError, s)"
    by (simp add: updateFanficStory_def defineAction_def throw_def)
next
  assume "field raw ''orderIndex'' = JUndefined \<and> field raw ''title'' = JUndefined
      \<and> field raw ''notes'' = JUndefined \<and> field raw ''content'' = JUndefined"
  then have "updateFanficChapter_schema raw = None"
    by (simp add: updateFanficChapter_schema_def split: Option.bind_splits)
  then show "updateFanficChapter now raw ctx s = (Inl ActionInputError, s)"
    by (simp add: updateFanficChapter_def defineAction_def throw_def)
qed

theorem update_without_fields_rejected_witness:
  "updateFandom 9 idsOnly alice sampleStore = (Inl ActionInputError, sampleStore)
   \<and> updateFanficStory 9 idsOnly alice sampleStore = (Inl ActionInputError, sampleStore)
   \<and> updateFanficChapter 9 idsOnly alice sampleStore = (Inl ActionInputError, sampleStore)"
  using update_without_fields_rejected [of idsOnly 9 alice sampleStore]
  by (simp add: idsOnly_def field_def)

section \<open>Deleting a chapter\<close>

lemma deleteC1_parsed:
  "deleteFanficChapter_schema deleteC1 = Some \<lparr>dc_id = ''c1'', dc_storyId = ''s1''\<rparr>"
  by (simp add: deleteFanficChapter_schema_def deleteC1_def field_def)

lemma deleteFanficChapter_delete_run:
  "deleteFanficChapter_delete inp s =
     (if filter (\<lambda>r. chapter_id r = dc_id inp) (rows_FanficChapters s) = []
      then Inl (ActionError NOT_FOUND ''Chapter not found.'') else Inr (),
      log (Delete FanficChapters)
        (s\<lparr>rows_FanficChapters := filter (\<lambda>r. chapter_id r \<noteq> dc_id inp) (rows_FanficChapters s)\<rparr>))"
  by (simp add: deleteFanficChapter_delete_def delete_FanficChapters_def await_def throw_def
      return_def)

lemma deleteFanficChapter_run:
  assumes "deleteFanficChapter_schema raw = Some inp" and "requireUser ctx = Inr u"
  shows "deleteFanficChapter raw ctx s =
     (case getOwnedChapter (dc_id inp) (dc_storyId inp) (user_id u) s of
        (Inl e, s') \<Rightarrow> (Inl e, s')
      | (Inr ch, s') \<Rightarrow> deleteFanficChapter_delete inp s')"
  using assms
  by (simp add: deleteFanficChapter_def defineAction_def deleteFanficChapter_handler_def
      await_def throw_def)

lemma getOwnedChapter_found:
  assumes "fst (getOwnedChapter cid sid uid s) = Inr ch"
  shows "ch \<in> set (rows_FanficChapters s) \<and> chapter_id ch = cid \<and> chapter_storyId ch = sid"
    and "first (filter (\<lambda>r. story_id r = sid \<and> story_userId r = uid) (rows_FanficStories s))
           \<noteq> None"
    and "snd (getOwnedChapter cid sid uid s)
           = log (Select FanficChapters) (log (Select FanficStories) s)"
  using assms
  by (auto simp: getOwnedChapter_run split: option.splits dest: first_filter_Some)

lemma getOwnedChapter_failed:
  assumes "fst (getOwnedChapter cid sid uid s) = Inl e"
  shows "rows_FanficChapters (snd (getOwnedChapter cid sid uid s)) = rows_FanficChapters s"
    and "set (issued (snd (getOwnedChapter cid sid uid s)))
           \<subseteq> set (issued s) \<union> {Select FanficStories, Select FanficChapters}"
  using assms
  by (auto simp: getOwnedChapter_run split: option.splits)

lemma deleteFanficChapter_passed:
  assumes "deleteFanficChapter_schema raw = Some inp" and "requireUser ctx = Inr u"
    and "fst (getOwnedChapter (dc_id inp) (dc_storyId inp) (user_id u) s) = Inr ch"
  shows "deleteFanficChapter raw ctx s
         = deleteFanficChapter_delete inp
             (log (Select FanficChapters) (log (Select FanficStories) s))"
proof (cases "getOwnedChapter (dc_id inp) (dc_storyId inp) (user_id u) s")
  case (Pair r s')
  with assms(3) getOwnedChapter_found(3) [OF assms(3)]
  have "r = Inr ch" "s' = log (Select FanficChapters) (log (Select FanficStories) s)"
    by simp_all
  with Pair show ?thesis by (simp add: deleteFanficChapter_run [OF assms(1,2)])
qed

lemma deleteFanficChapter_failed:
  assumes "deleteFanficChapter_schema raw = Some inp" and "requireUser ctx = Inr u"
    and "fst (getOwnedChapter (dc_id inp) (dc_storyId inp) (user_id u) s) = Inl e"
  shows "deleteFanficChapter raw ctx s
         = (Inl e, snd (getOwnedChapter (dc_id inp) (dc_storyId inp) (user_id u) s))"
proof (cases "getOwnedChapter (dc_id inp) (dc_storyId inp) (user_id u) s")
  case (Pair r s')
  with assms(3) have "r = Inl e" by simp
  with Pair show ?thesis by (simp add: deleteFanficChapter_run [OF assms(1,2)])
qed

text \<open>
  C10: \<open>deleteFanficChapter\<close> runs the ownership check first: when the check fails the
  action fails with the check's error, keeps the chapters and issues no delete. When the
  check passes it issues, after the two lookups, one delete that removes the rows with the
  given chapter id, whatever story they belong to. The delete fails with NOT_FOUND when no row
  has that id. Hence deleting a chapter twice succeeds the first time and fails with
  NOT_FOUND the second time.
\<close>

theorem deleteFanficChapter_twice:
  assumes "deleteFanficChapter_schema raw = Some inp" and "requireUser ctx = Inr u"
  shows "(\<forall>e. fst (getOwnedChapter (dc_id inp) (dc_storyId inp) (user_id u) s) = Inl e \<longrightarrow>
            fst (deleteFanficChapter raw ctx s) = Inl e
            \<and> rows_FanficChapters (snd (deleteFanficChapter raw ctx s)) = rows_FanficChapters s
            \<and> (Delete FanficChapters \<in> set (issued (snd (deleteFanficChapter raw ctx s)))
                 \<longrightarrow> Delete FanficChapters \<in> set (issued s)))
         \<and> (\<forall>ch. fst (getOwnedChapter (dc_id inp) (dc_storyId inp) (user_id u) s) = Inr ch \<longrightarrow>
            fst (deleteFanficChapter raw ctx s) = Inr ()
            \<and> rows_FanficChapters (snd (deleteFanficChapter raw ctx s))
                = filter (\<lambda>r. chapter_id r \<noteq> dc_id inp) (rows_FanficChapters s)
            \<and> issued (snd (deleteFanficChapter raw ctx s))
                = issued s @ [Select FanficStories, Select FanficChapters, Delete FanficChapters])
         \<and> ((\<forall>r \<in> set (rows_FanficChapters s). chapter_id r \<noteq> dc_id inp) \<longrightarrow>
            fst (deleteFanficChapter_delete inp s)
              = Inl (ActionError NOT_FOUND ''Chapter not found.''))
         \<and> (fst (deleteFanficChapter raw ctx s) = Inr () \<longrightarrow>
            fst (deleteFanficChapter raw ctx (snd (deleteFanficChapter raw ctx s)))
              = Inl (ActionError NOT_FOUND ''Chapter not found.''))"
proof -
  let ?check = "getOwnedChapter (dc_id inp) (dc_storyId inp) (user_id u)"
  have failed: "\<forall>e. fst (?check s) = Inl e \<longrightarrow>
            fst (deleteFanficChapter raw ctx s) = Inl e
            \<and> rows_FanficChapters (snd (deleteFanficChapter raw ctx s)) = rows_FanficChapters s
            \<and> (Delete FanficChapters \<in> set (issued (snd (deleteFanficChapter raw ctx s)))
                 \<longrightarrow> Delete FanficChapters \<in> set (issued s))"
  proof (intro allI impI)
    fix e assume e: "fst (?check s) = Inl e"
    then have same: "deleteFanficChapter raw ctx s = (Inl e, snd (?check s))"
      by (rule deleteFanficChapter_failed [OF assms])
    with getOwnedChapter_failed [OF e]
    show "fst (deleteFanficChapter raw ctx s) = Inl e
          \<and> rows_FanficChapters (snd (deleteFanficChapter raw ctx s)) = rows_FanficChapters s
          \<and> (Delete FanficChapters \<in> set (issued (snd (deleteFanficChapter raw ctx s)))
                 \<longrightarrow> Delete FanficChapters \<in> set (issued s))"
      by auto
  qed
  have passed: "fst (deleteFanficChapter raw ctx s) = Inr ()
            \<and> rows_FanficChapters (snd (deleteFanficChapter raw ctx s))
                = filter (\<lambda>r. chapter_id r \<noteq> dc_id inp) (rows_FanficChapters s)
            \<and> issued (snd (deleteFanficChapter raw ctx s))
                = issued s @ [Select FanficStories, Select FanficChapters, Delete FanficChapters]"
    if ch: "fst (?check s) = Inr ch" for ch
  proof -
    from getOwnedChapter_found [OF ch]
    have mem: "ch \<in> set (rows_FanficChapters s)" "chapter_id ch = dc_id inp"
      and after: "snd (?check s) = log (Select FanficChapters) (log (Select FanficStories) s)"
      by simp_all
    from mem have "filter (\<lambda>r. chapter_id r = dc_id inp) (rows_FanficChapters s) \<noteq> []"
      by (auto simp: filter_empty_conv)
    moreover have "deleteFanficChapter raw ctx s
          = deleteFanficChapter_delete inp
              (log (Select FanficChapters) (log (Select FanficStories) s))"
      by (rule deleteFanficChapter_passed [OF assms ch])
    ultimately show ?thesis by (simp add: deleteFanficChapter_delete_run)
  qed
  have gone: "(\<forall>r \<in> set (rows_FanficChapters s). chapter_id r \<noteq> dc_id inp) \<longrightarrow>
            fst (deleteFanficChapter_delete inp s)
              = Inl (ActionError NOT_FOUND ''Chapter not found.'')"
    by (simp add: deleteFanficChapter_delete_run filter_empty_conv)
  have twice: "fst (deleteFanficChapter raw ctx (snd (deleteFanficChapter raw ctx s)))
              = Inl (ActionError NOT_FOUND ''Chapter not found.'')"
    if ok: "fst (deleteFanficChapter raw ctx s) = Inr ()"
  proof -
    let ?s' = "snd (deleteFanficChapter raw ctx s)"
    from ok obtain ch where ch: "fst (?check s) = Inr ch"
      by (cases "fst (?check s)") (auto simp: deleteFanficChapter_failed [OF assms])
    from passed [OF ch]
    have rows: "rows_FanficChapters ?s'
                = filter (\<lambda>r. chapter_id r \<noteq> dc_id inp) (rows_FanficChapters s)"
      by simp
    have stories: "rows_FanficStories ?s' = rows_FanficStories s"
      by (simp add: deleteFanficChapter_passed [OF assms ch] deleteFanficChapter_delete_run)
    have "filter (\<lambda>r. chapter_id r = dc_id inp \<and> chapter_storyId r = dc_storyId inp)
            (rows_FanficChapters ?s') = []"
      by (auto simp: rows filter_empty_conv)
    then have "fst (?check ?s') = Inl (ActionError NOT_FOUND ''Chapter not found.'')"
      using getOwnedChapter_found(2) [OF ch]
      by (auto simp: getOwnedChapter_run stories split: option.splits)
    then show ?thesis by (simp add: deleteFanficChapter_failed [OF assms])
  qed
  from failed passed gone twice show ?thesis by blast
qed

theorem deleteFanficChapter_twice_witness:
  "fst (deleteFanficChapter deleteC1 alice sampleStore) = Inr ()
   \<and> rows_FanficChapters (snd (deleteFanficChapter deleteC1 alice sampleStore)) = []
   \<and> fst (deleteFanficChapter deleteC1 alice
            (snd (deleteFanficChapter deleteC1 alice sampleStore)))
       = Inl (ActionError NOT_FOUND ''Chapter not found.'')
   \<and> fst (deleteFanficChapter deleteC1 bob sampleStore)
       = Inl (ActionError NOT_FOUND ''Fanfic story not found.'')
   \<and> rows_FanficChapters (snd (deleteFanficChapter deleteC1 bob sampleStore)) = [aliceChapter]"
proof -
  have own: "fst (getOwnedChapter (dc_id \<lparr>dc_id = ''c1'', dc_storyId = ''s1''\<rparr>)
                    (dc_storyId \<lparr>dc_id = ''c1'', dc_storyId = ''s1''\<rparr>)
                    (user_id \<lparr>user_id = ''alice''\<rparr>) sampleStore) = Inr aliceChapter"
    by (simp add: getOwnedChapter_run sampleStore_rows sample_story_fields aliceChapter_def)
  have foreign: "fst (getOwnedChapter (dc_id \<lparr>dc_id = ''c1'', dc_storyId = ''s1''\<rparr>)
                    (dc_storyId \<lparr>dc_id = ''c1'', dc_storyId = ''s1''\<rparr>)
                    (user_id \<lparr>user_id = ''bob''\<rparr>) sampleStore)
                 = Inl (ActionError NOT_FOUND ''Fanfic story not found.'')"
    by (simp add: getOwnedChapter_run sampleStore_rows sample_story_fields)
  note a = deleteFanficChapter_twice [OF deleteC1_parsed requireUser_sample(1), of sampleStore]
  note b = deleteFanficChapter_twice [OF deleteC1_parsed requireUser_sample(2), of sampleStore]
  from a own have 1: "fst (deleteFanficChapter deleteC1 alice sampleStore) = Inr ()" by blast
  from a own have "rows_FanficChapters (snd (deleteFanficChapter deleteC1 alice sampleStore))
      = filter (\<lambda>r. chapter_id r \<noteq> dc_id \<lparr>dc_id = ''c1'', dc_storyId = ''s1''\<rparr>)
          (rows_FanficChapters sampleStore)" by blast
  then have 2: "rows_FanficChapters (snd (deleteFanficChapter deleteC1 alice sampleStore)) = []"
    by (simp add: sampleStore_rows aliceChapter_def)
  from a 1 have 3: "fst (deleteFanficChapter deleteC1 alice
            (snd (deleteFanficChapter deleteC1 alice sampleStore)))
       = Inl (ActionError NOT_FOUND ''Chapter not found.'')" by blast
  from b foreign have 4: "fst (deleteFanficChapter deleteC1 bob sampleStore)
       = Inl (ActionError NOT_FOUND ''Fanfic story not found.'')" by blast
  from b foreign
  have "rows_FanficChapters (snd (deleteFanficChapter deleteC1 bob sampleStore))
        = rows_FanficChapters sampleStore" by blast
  then have 5: "rows_FanficChapters (snd (deleteFanficChapter deleteC1 bob sampleStore))
        = [aliceChapter]" by (simp add: sampleStore_rows)
  from 1 2 3 4 5 show ?thesis by blast
qed

section \<open>The reference to the fandom on the update path\<close>

text \<open>
  When \<open>updateFanficStory\<close> succeeds with a \<^verbatim>\<open>fandomId\<close> that is a text, a fandom with
  that id exists: the value written to the referencing column references a fandom.
\<close>

lemma updateFanficStory_fandomId_referenced:
  assumes "fst (updateFanficStory_handler now inp ctx s) = Inr res"
    and "us_fandomId inp = Some (Some fid)"
  shows "fid \<in> set (map fandom_id (rows_Fandoms s))"
proof (cases "first (filter (\<lambda>r. fandom_id r = fid) (rows_Fandoms s))")
  case None
  with assms show ?thesis
    by (auto simp: updateFanficStory_handler_def getOwnedStory_run ensureFandomAccessible_run
        await_def throw_def return_def split: sum.splits option.splits)
next
  case (Some f)
  from first_filter_Some [OF Some] show ?thesis by auto
qed

section \<open>Partial updates\<close>

lemma z_string_min1_SomeD: "z_string_min1 v = Some t \<Longrightarrow> v = JString t"
  by (cases v) (auto split: if_splits)

lemma z_optional_undefined: "z_optional inner v = Some p \<Longrightarrow> v = JUndefined \<Longrightarrow> p = None"
  by simp

lemma updateFandom_schema_SomeD:
  assumes "updateFandom_schema raw = Some inp"
  shows "field raw ''id'' = JString (uf_id inp)"
    and "field raw ''name'' = JUndefined \<Longrightarrow> uf_name inp = None"
    and "field raw ''canonType'' = JUndefined \<Longrightarrow> uf_canonType inp = None"
    and "field raw ''description'' = JUndefined \<Longrightarrow> uf_description inp = None"
  using assms
  by (auto simp: updateFandom_schema_def bind_eq_Some_conv split: if_splits
      dest: z_string_min1_SomeD)

lemma updateFanficStory_schema_SomeD:
  assumes "updateFanficStory_schema raw = Some inp"
  shows "field raw ''id'' = JString (us_id inp)"
    and "field raw ''fandomId'' = JUndefined \<Longrightarrow> us_fandomId inp = None"
    and "field raw ''title'' = JUndefined \<Longrightarrow> us_title inp = None"
    and "field raw ''summary'' = JUndefined \<Longrightarrow> us_summary inp = None"
    and "field raw ''rating'' = JUndefined \<Longrightarrow> us_rating inp = None"
    and "field raw ''pairing'' = JUndefined \<Longrightarrow> us_pairing inp = None"
    and "field raw ''tags'' = JUndefined \<Longrightarrow> us_tags inp = None"
    and "field raw ''status'' = JUndefined \<Longrightarrow> us_status inp = None"
    and "field raw ''language'' = JUndefined \<Longrightarrow> us_language inp = None"
  using assms
  by (auto simp: updateFanficStory_schema_def bind_eq_Some_conv split: if_splits
      dest: z_string_min1_SomeD)

lemma updateFanficChapter_schema_SomeD:
  assumes "updateFanficChapter_schema raw = Some inp"
  shows "field raw ''id'' = JString (uc_id inp)"
    and "field raw ''orderIndex'' = JUndefined \<Longrightarrow> uc_orderIndex inp = None"
    and "field raw ''title'' = JUndefined \<Longrightarrow> uc_title inp = None"
    and "field raw ''notes'' = JUndefined \<Longrightarrow> uc_notes inp = None"
    and "field raw ''content'' = JUndefined \<Longrightarrow> uc_content inp = None"
  using assms
  by (auto simp: updateFanficChapter_schema_def bind_eq_Some_conv split: if_splits
      dest: z_string_min1_SomeD)

lemma updateFandom_set_fields:
  "fandom_id (updateFandom_set now inp r) = fandom_id r"
  "fandom_userId (updateFandom_set now inp r) = fandom_userId r"
  "fandom_isSystem (updateFandom_set now inp r) = fandom_isSystem r"
  "fandom_createdAt (updateFandom_set now inp r) = fandom_createdAt r"
  "fandom_updatedAt (updateFandom_set now inp r) = now"
  "fandom_name (updateFandom_set now inp r)
     = (case uf_name inp of None \<Rightarrow> fandom_name r | Some v \<Rightarrow> v)"
  "fandom_canonType (updateFandom_set now inp r)
     = (case uf_canonType inp of None \<Rightarrow> fandom_canonType r | Some v \<Rightarrow> Some v)"
  "fandom_description (updateFandom_set now inp r)
     = (case uf_description inp of None \<Rightarrow> fandom_description r | Some v \<Rightarrow> Some v)"
  by (simp_all add: updateFandom_set_def Let_def split: option.splits)

lemma updateFanficStory_set_fields:
  "story_id (updateFanficStory_set now inp r) = story_id r"
  "story_userId (updateFanficStory_set now inp r) = story_userId r"
  "story_createdAt (updateFanficStory_set now inp r) = story_createdAt r"
  "story_updatedAt (updateFanficStory_set now inp r) = now"
  "story_fandomId (updateFanficStory_set now inp r)
     = (case us_fandomId inp of None \<Rightarrow> story_fandomId r | Some v \<Rightarrow> v)"
  "story_title (updateFanficStory_set now inp r)
     = (case us_title inp of None \<Rightarrow> story_title r | Some v \<Rightarrow> v)"
  "story_summary (updateFanficStory_set now inp r)
     = (case us_summary inp of None \<Rightarrow> story_summary r | Some v \<Rightarrow> Some v)"
  "story_rating (updateFanficStory_set now inp r)
     = (case us_rating inp of None \<Rightarrow> story_rating r | Some v \<Rightarrow> Some v)"
  "story_pairing (updateFanficStory_set now inp r)
     = (case us_pairing inp of None \<Rightarrow> story_pairing r | Some v \<Rightarrow> Some v)"
  "story_tags (updateFanficStory_set now inp r)
     = (case us_tags inp of None \<Rightarrow> story_tags r | Some v \<Rightarrow> Some v)"
  "story_status (updateFanficStory_set now inp r)
     = (case us_status inp of None \<Rightarrow> story_status r | Some v \<Rightarrow> Some v)"
  "story_language (updateFanficStory_set now inp r)
     = (case us_language inp of None \<Rightarrow> story_language r | Some v \<Rightarrow> Some v)"
  by (simp_all add: updateFanficStory_set_def Let_def split: option.splits)

lemma updateFanficChapter_set_fields:
  "chapter_id (updateFanficChapter_set now inp r) = chapter_id r"
  "chapter_storyId (updateFanficChapter_set now inp r) = chapter_storyId r"
  "chapter_createdAt (updateFanficChapter_set now inp r) = chapter_createdAt r"
  "chapter_updatedAt (updateFanficChapter_set now inp r) = now"
  "chapter_orderIndex (updateFanficChapter_set now inp r)
     = (case uc_orderIndex inp of None \<Rightarrow> chapter_orderIndex r | Some v \<Rightarrow> v)"
  "chapter_title (updateFanficChapter_set now inp r)
     = (case uc_title inp of None \<Rightarrow> chapter_title r | Some v \<Rightarrow> Some v)"
  "chapter_notes (updateFanficChapter_set now inp r)
     = (case uc_notes inp of None \<Rightarrow> chapter_notes r | Some v \<Rightarrow> Some v)"
  "chapter_content (updateFanficChapter_set now inp r)
     = (case uc_content inp of None \<Rightarrow> chapter_content r | Some v \<Rightarrow> v)"
  by (simp_all add: updateFanficChapter_set_def Let_def split: option.splits)

lemma updateFandom_success:
  assumes "fst (updateFandom now raw ctx s) = Inr res"
  obtains inp where "updateFandom_schema raw = Some inp"
    and "rows_Fandoms (snd (updateFandom now raw ctx s))
         = map (\<lambda>r. if fandom_id r = uf_id inp then updateFandom_set now inp r else r)
             (rows_Fandoms s)"
    and "rows_FanficStories (snd (updateFandom now raw ctx s)) = rows_FanficStories s"
    and "rows_FanficChapters (snd (updateFandom now raw ctx s)) = rows_FanficChapters s"
proof (cases "updateFandom_schema raw")
  case None
  with assms show ?thesis by (simp add: updateFandom_def defineAction_def throw_def)
next
  case (Some inp)
  show ?thesis
  proof (cases "requireUser ctx")
    case (Inl e)
    with assms Some show ?thesis
      by (simp add: updateFandom_run updateFandom_handler_def throw_def)
  next
    case (Inr u)
    with assms Some that [of inp] show ?thesis
      by (auto simp: updateFandom_run updateFandom_handler_run split: option.splits if_splits)
  qed
qed

lemma updateFanficStory_success:
  assumes "fst (updateFanficStory now raw ctx s) = Inr res"
  obtains inp where "updateFanficStory_schema raw = Some inp"
    and "rows_FanficStories (snd (updateFanficStory now raw ctx s))
         = map (\<lambda>r. if story_id r = us_id inp then updateFanficStory_set now inp r else r)
             (rows_FanficStories s)"
    and "rows_Fandoms (snd (updateFanficStory now raw ctx s)) = rows_Fandoms s"
    and "rows_FanficChapters (snd (updateFanficStory now raw ctx s)) = rows_FanficChapters s"
proof (cases "updateFanficStory_schema raw")
  case None
  with assms show ?thesis by (simp add: updateFanficStory_def defineAction_def throw_def)
next
  case (Some inp)
  with assms have ok: "fst (updateFanficStory_handler now inp ctx s) = Inr res"
    and eq: "updateFanficStory now raw ctx s = updateFanficStory_handler now inp ctx s"
    by (simp_all add: updateFanficStory_def defineAction_def)
  from ok have
    "rows_FanficStories (snd (updateFanficStory_handler now inp ctx s))
       = map (\<lambda>r. if story_id r = us_id inp then updateFanficStory_set now inp r else r)
           (rows_FanficStories s)
     \<and> rows_Fandoms (snd (updateFanficStory_handler now inp ctx s)) = rows_Fandoms s
     \<and> rows_FanficChapters (snd (updateFanficStory_handler now inp ctx s))
         = rows_FanficChapters s"
    by (auto simp: updateFanficStory_handler_def getOwnedStory_run ensureFandomAccessible_run
        await_def throw_def return_def update_FanficStories_def
        split: sum.splits option.splits if_splits)
  with Some eq that [of inp] show ?thesis by simp
qed

lemma updateFanficChapter_success:
  assumes "fst (updateFanficChapter now raw ctx s) = Inr res"
  obtains inp where "updateFanficChapter_schema raw = Some inp"
    and "rows_FanficChapters (snd (updateFanficChapter now raw ctx s))
         = map (\<lambda>r. if chapter_id r = uc_id inp then updateFanficChapter_set now inp r else r)
             (rows_FanficChapters s)"
    and "rows_Fandoms (snd (updateFanficChapter now raw ctx s)) = rows_Fandoms s"
    and "rows_FanficStories (snd (updateFanficChapter now raw ctx s)) = rows_FanficStories s"
proof (cases "updateFanficChapter_schema raw")
  case None
  with assms show ?thesis by (simp add: updateFanficChapter_def defineAction_def throw_def)
next
  case (Some inp)
  with assms have ok: "fst (updateFanficChapter_handler now inp ctx s) = Inr res"
    and eq: "updateFanficChapter now raw ctx s = updateFanficChapter_handler now inp ctx s"
    by (simp_all add: updateFanficChapter_def defineAction_def)
  from ok have
    "rows_FanficChapters (snd (updateFanficChapter_handler now inp ctx s))
       = map (\<lambda>r. if chapter_id r = uc_id inp then updateFanficChapter_set now inp r else r)
           (rows_FanficChapters s)
     \<and> rows_Fandoms (snd (updateFanficChapter_handler now inp ctx s)) = rows_Fandoms s
     \<and> rows_FanficStories (snd (updateFanficChapter_handler now inp ctx s))
         = rows_FanficStories s"
    by (auto simp: updateFanficChapter_handler_def getOwnedChapter_run
        await_def throw_def return_def update_FanficChapters_def
        split: sum.splits option.splits if_splits)
  with Some eq that [of inp] show ?thesis by simp
qed

lemma list_all2_map_self:
  "(\<And>x. x \<in> set xs \<Longrightarrow> P x (g x)) \<Longrightarrow> list_all2 P xs (map g xs)"
  by (simp add: list_all2_map2 list_all2_same)

text \<open>
  C9: after a successful \<open>updateFandom\<close>, \<open>updateFanficStory\<close> or \<open>updateFanficChapter\<close>
  the table has the same rows in the same places; a row with another id is the row it was;
  in a row with the given id every column whose field the input does not supply holds the
  value it held, the identifying, owning and creation columns hold theirs, and
  \<^verbatim>\<open>updatedAt\<close> is the time of the update. The other two tables are as they were.
\<close>

theorem partial_update_frame:
  "(fst (updateFandom now raw ctx s) = Inr resF \<longrightarrow>
      list_all2 (\<lambda>old new.
          if field raw ''id'' = JString (fandom_id old)
          then fandom_id new = fandom_id old \<and> fandom_userId new = fandom_userId old
             \<and> fandom_isSystem new = fandom_isSystem old
             \<and> fandom_createdAt new = fandom_createdAt old
             \<and> fandom_updatedAt new = now
             \<and> (field raw ''name'' = JUndefined \<longrightarrow> fandom_name new = fandom_name old)
             \<and> (field raw ''canonType'' = JUndefined \<longrightarrow>
                  fandom_canonType new = fandom_canonType old)
             \<and> (field raw ''description'' = JUndefined \<longrightarrow>
                  fandom_description new = fandom_description old)
          else new = old)
        (rows_Fandoms s) (rows_Fandoms (snd (updateFandom now raw ctx s)))
      \<and> rows_FanficStories (snd (updateFandom now raw ctx s)) = rows_FanficStories s
      \<and> rows_FanficChapters (snd (updateFandom now raw ctx s)) = rows_FanficChapters s)
   \<and> (fst (updateFanficStory now raw ctx s) = Inr resS \<longrightarrow>
      list_all2 (\<lambda>old new.
          if field raw ''id'' = JString (story_id old)
          then story_id new = story_id old \<and> story_userId new = story_userId old
             \<and> story_createdAt new = story_createdAt old
             \<and> story_updatedAt new = now
             \<and> (field raw ''fandomId'' = JUndefined \<longrightarrow>
                  story_fandomId new = story_fandomId old)
             \<and> (field raw ''title'' = JUndefined \<longrightarrow> story_title new = story_title old)
             \<and> (field raw ''summary'' = JUndefined \<longrightarrow> story_summary new = story_summary old)
             \<and> (field raw ''rating'' = JUndefined \<longrightarrow> story_rating new = story_rating old)
             \<and> (field raw ''pairing'' = JUndefined \<longrightarrow> story_pairing new = story_pairing old)
             \<and> (field raw ''tags'' = JUndefined \<longrightarrow> story_tags new = story_tags old)
             \<and> (field raw ''status'' = JUndefined \<longrightarrow> story_status new = story_status old)
             \<and> (field raw ''language'' = JUndefined \<longrightarrow>
                  story_language new = story_language old)
          else new = old)
        (rows_FanficStories s) (rows_FanficStories (snd (updateFanficStory now raw ctx s)))
      \<and> rows_Fandoms (snd (updateFanficStory now raw ctx s)) = rows_Fandoms s
      \<and> rows_FanficChapters (snd (updateFanficStory now raw ctx s)) = rows_FanficChapters s)
   \<and> (fst (updateFanficChapter now raw ctx s) = Inr resC \<longrightarrow>
      list_all2 (\<lambda>old new.
          if field raw ''id'' = JString (chapter_id old)
          then chapter_id new = chapter_id old \<and> chapter_storyId new = chapter_storyId old
             \<and> chapter_createdAt new = chapter_createdAt old
             \<and> chapter_updatedAt new = now
             \<and> (field raw ''orderIndex'' = JUndefined \<longrightarrow>
                  chapter_orderIndex new = chapter_orderIndex old)
             \<and> (field raw ''title'' = JUndefined \<longrightarrow> chapter_title new = chapter_title old)
             \<and> (field raw ''notes'' = JUndefined \<longrightarrow> chapter_notes new = chapter_notes old)
             \<and> (field raw ''content'' = JUndefined \<longrightarrow>
                  chapter_content new = chapter_content old)
          else new = old)
        (rows_FanficChapters s) (rows_FanficChapters (snd (updateFanficChapter now raw ctx s)))
      \<and> rows_Fandoms (snd (updateFanficChapter now raw ctx s)) = rows_Fandoms s
      \<and> rows_FanficStories (snd (updateFanficChapter now raw ctx s)) = rows_FanficStories s)"
proof (intro conjI impI)
  assume ok: "fst (updateFandom now raw ctx s) = Inr resF"
  from ok obtain inp where inp: "updateFandom_schema raw = Some inp"
    and rows: "rows_Fandoms (snd (updateFandom now raw ctx s))
         = map (\<lambda>r. if fandom_id r = uf_id inp then updateFandom_set now inp r else r)
             (rows_Fandoms s)"
    and others: "rows_FanficStories (snd (updateFandom now raw ctx s)) = rows_FanficStories s"
      "rows_FanficChapters (snd (updateFandom now raw ctx s)) = rows_FanficChapters s"
    by (rule updateFandom_success)
  note d = updateFandom_schema_SomeD [OF inp]
  show "list_all2 (\<lambda>old new.
          if field raw ''id'' = JString (fandom_id old)
          then fandom_id new = fandom_id old \<and> fandom_userId new = fandom_userId old
             \<and> fandom_isSystem new = fandom_isSystem old
             \<and> fandom_createdAt new = fandom_createdAt old
             \<and> fandom_updatedAt new = now
             \<and> (field raw ''name'' = JUndefined \<longrightarrow> fandom_name new = fandom_name old)
             \<and> (field raw ''canonType'' = JUndefined \<longrightarrow>
                  fandom_canonType new = fandom_canonType old)
             \<and> (field raw ''description'' = JUndefined \<longrightarrow>
                  fandom_description new = fandom_description old)
          else new = old)
        (rows_Fandoms s) (rows_Fandoms (snd (updateFandom now raw ctx s)))"
    unfolding rows
    by (rule list_all2_map_self) (simp add: d updateFandom_set_fields)
  from others show "rows_FanficStories (snd (updateFandom now raw ctx s)) = rows_FanficStories s"
    and "rows_FanficChapters (snd (updateFandom now raw ctx s)) = rows_FanficChapters s"
    by simp_all
next
  assume ok: "fst (updateFanficStory now raw ctx s) = Inr resS"
  from ok obtain inp where inp: "updateFanficStory_schema raw = Some inp"
    and rows: "rows_FanficStories (snd (updateFanficStory now raw ctx s))
         = map (\<lambda>r. if story_id r = us_id inp then updateFanficStory_set now inp r else r)
             (rows_FanficStories s)"
    and others: "rows_Fandoms (snd (updateFanficStory now raw ctx s)) = rows_Fandoms s"
      "rows_FanficChapters (snd (updateFanficStory now raw ctx s)) = rows_FanficChapters s"
    by (rule updateFanficStory_success)
  note d = updateFanficStory_schema_SomeD [OF inp]
  show "list_all2 (\<lambda>old new.
          if field raw ''id'' = JString (story_id old)
          then story_id new = story_id old \<and> story_userId new = story_userId old
             \<and> story_createdAt new = story_createdAt old
             \<and> story_updatedAt new = now
             \<and> (field raw ''fandomId'' = JUndefined \<longrightarrow>
                  story_fandomId new = story_fandomId old)
             \<and> (field raw ''title'' = JUndefined \<longrightarrow> story_title new = story_title old)
             \<and> (field raw ''summary'' = JUndefined \<longrightarrow> story_summary new = story_summary old)
             \<and> (field raw ''rating'' = JUndefined \<longrightarrow> story_rating new = story_rating old)
             \<and> (field raw ''pairing'' = JUndefined \<longrightarrow> story_pairing new = story_pairing old)
             \<and> (field raw ''tags'' = JUndefined \<longrightarrow> story_tags new = story_tags old)
             \<and> (field raw ''status'' = JUndefined \<longrightarrow> story_status new = story_status old)
             \<and> (field raw ''language'' = JUndefined \<longrightarrow>
                  story_language new = story_language old)
          else new = old)
        (rows_FanficStories s) (rows_FanficStories (snd (updateFanficStory now raw ctx s)))"
    unfolding rows
    by (rule list_all2_map_self) (simp add: d updateFanficStory_set_fields)
  from others show "rows_Fandoms (snd (updateFanficStory now raw ctx s)) = rows_Fandoms s"
    and "rows_FanficChapters (snd (updateFanficStory now raw ctx s)) = rows_FanficChapters s"
    by simp_all
next
  assume ok: "fst (updateFanficChapter now raw ctx s) = Inr resC"
  from ok obtain inp where inp: "updateFanficChapter_schema raw = Some inp"
    and rows: "rows_FanficChapters (snd (updateFanficChapter now raw ctx s))
         = map (\<lambda>r. if chapter_id r = uc_id inp then updateFanficChapter_set now inp r else r)
             (rows_FanficChapters s)"
    and others: "rows_Fandoms (snd (updateFanficChapter now raw ctx s)) = rows_Fandoms s"
      "rows_FanficStories (snd (updateFanficChapter now raw ctx s)) = rows_FanficStories s"
    by (rule updateFanficChapter_success)
  note d = updateFanficChapter_schema_SomeD [OF inp]
  show "list_all2 (\<lambda>old new.
          if field raw ''id'' = JString (chapter_id old)
          then chapter_id new = chapter_id old \<and> chapter_storyId new = chapter_storyId old
             \<and> chapter_createdAt new = chapter_createdAt old
             \<and> chapter_updatedAt new = now
             \<and> (field raw ''orderIndex'' = JUndefined \<longrightarrow>
                  chapter_orderIndex new = chapter_orderIndex old)
             \<and> (field raw ''title'' = JUndefined \<longrightarrow> chapter_title new = chapter_title old)
             \<and> (field raw ''notes'' = JUndefined \<longrightarrow> chapter_notes new = chapter_notes old)
             \<and> (field raw ''content'' = JUndefined \<longrightarrow>
                  chapter_content new = chapter_content old)
          else new = old)
        (rows_FanficChapters s) (rows_FanficChapters (snd (updateFanficChapter now raw ctx s)))"
    unfolding rows
    by (rule list_all2_map_self) (simp add: d updateFanficChapter_set_fields)
  from others show "rows_Fandoms (snd (updateFanficChapter now raw ctx s)) = rows_Fandoms s"
    and "rows_FanficStories (snd (updateFanficChapter now raw ctx s)) = rows_FanficStories s"
    by simp_all
qed

lemma sample_updates_succeed:
  "fst (updateFandom 9 renameAlice alice sampleStore)
     = Inr (Some (aliceFandom\<lparr>fandom_name := ''Hogwarts'', fandom_updatedAt := 9\<rparr>))"
  "fst (updateFanficStory 9 retitle alice sampleStore)
     = Inr (Some (aliceStory\<lparr>story_title := ''Second Try'', story_updatedAt := 9\<rparr>))"
  "fst (updateFanficChapter 9 rewrite alice sampleStore)
     = Inr (Some (aliceChapter\<lparr>chapter_content := ''It begins again.'',
                               chapter_updatedAt := 9\<rparr>))"
proof -
  have "updateFandom_schema renameAlice =
     Some \<lparr>uf_id = ''f-alice'', uf_name = Some ''Hogwarts'', uf_canonType = None,
           uf_description = None\<rparr>"
    by (simp add: updateFandom_schema_def renameAlice_def field_def)
  then show "fst (updateFandom 9 renameAlice alice sampleStore)
     = Inr (Some (aliceFandom\<lparr>fandom_name := ''Hogwarts'', fandom_updatedAt := 9\<rparr>))"
    by (simp add: updateFandom_run updateFandom_handler_run [OF requireUser_sample(1)]
        sampleStore_rows sample_fandom_ids sample_fandom_owners truthy_def updateFandom_set_def)
  have "updateFanficStory_schema retitle =
     Some \<lparr>us_id = ''s1'', us_fandomId = None, us_title = Some ''Second Try'',
           us_summary = None, us_rating = None, us_pairing = None, us_tags = None,
           us_status = None, us_language = None\<rparr>"
    by (simp add: updateFanficStory_schema_def retitle_def field_def)
  then show "fst (updateFanficStory 9 retitle alice sampleStore)
     = Inr (Some (aliceStory\<lparr>story_title := ''Second Try'', story_updatedAt := 9\<rparr>))"
    by (simp add: updateFanficStory_def defineAction_def updateFanficStory_handler_def
        requireUser_sample getOwnedStory_run await_def return_def update_FanficStories_def
        updateFanficStory_set_def sampleStore_rows sample_story_fields)
  have "updateFanficChapter_schema rewrite =
     Some \<lparr>uc_id = ''c1'', uc_storyId = ''s1'', uc_orderIndex = None, uc_title = None,
           uc_notes = None, uc_content = Some ''It begins again.''\<rparr>"
    by (simp add: updateFanficChapter_schema_def rewrite_def field_def)
  then show "fst (updateFanficChapter 9 rewrite alice sampleStore)
     = Inr (Some (aliceChapter\<lparr>chapter_content := ''It begins again.'',
                               chapter_updatedAt := 9\<rparr>))"
    by (simp add: updateFanficChapter_def defineAction_def updateFanficChapter_handler_def
        requireUser_sample getOwnedChapter_run await_def return_def update_FanficChapters_def
        updateFanficChapter_set_def sampleStore_rows sample_story_fields aliceChapter_def)
qed

theorem partial_update_frame_witness:
  "fandom_canonType (rows_Fandoms (snd (updateFandom 9 renameAlice alice sampleStore)) ! 0)
     = Some ''books''
   \<and> fandom_updatedAt (rows_Fandoms (snd (updateFandom 9 renameAlice alice sampleStore)) ! 0) = 9
   \<and> rows_Fandoms (snd (updateFandom 9 renameAlice alice sampleStore)) ! 1 = adminFandom
   \<and> story_summary (rows_FanficStories (snd (updateFanficStory 9 retitle alice sampleStore)) ! 0)
       = Some ''After the war''
   \<and> story_updatedAt (rows_FanficStories (snd (updateFanficStory 9 retitle alice sampleStore)) ! 0)
       = 9
   \<and> chapter_title
        (rows_FanficChapters (snd (updateFanficChapter 9 rewrite alice sampleStore)) ! 0)
       = Some ''One''
   \<and> chapter_updatedAt
        (rows_FanficChapters (snd (updateFanficChapter 9 rewrite alice sampleStore)) ! 0)
       = 9"
proof -
  note f = partial_update_frame [of 9 renameAlice alice sampleStore,
      THEN conjunct1, rule_format, OF sample_updates_succeed(1), THEN conjunct1]
  note st = partial_update_frame [of 9 retitle alice sampleStore,
      THEN conjunct2, THEN conjunct1, rule_format, OF sample_updates_succeed(2), THEN conjunct1]
  note ch = partial_update_frame [of 9 rewrite alice sampleStore,
      THEN conjunct2, THEN conjunct2, rule_format, OF sample_updates_succeed(3), THEN conjunct1]
  have 1: "fandom_canonType (rows_Fandoms (snd (updateFandom 9 renameAlice alice sampleStore)) ! 0)
             = Some ''books''
           \<and> fandom_updatedAt
               (rows_Fandoms (snd (updateFandom 9 renameAlice alice sampleStore)) ! 0) = 9"
    using list_all2_nthD [OF f, of 0]
    by (simp add: sampleStore_rows sample_fandom_ids renameAlice_def field_def aliceFandom_def)
  have 2: "rows_Fandoms (snd (updateFandom 9 renameAlice alice sampleStore)) ! 1 = adminFandom"
    using list_all2_nthD [OF f, of 1]
    by (simp add: sampleStore_rows sample_fandom_ids renameAlice_def field_def)
  have 3: "story_summary
             (rows_FanficStories (snd (updateFanficStory 9 retitle alice sampleStore)) ! 0)
             = Some ''After the war''
           \<and> story_updatedAt
               (rows_FanficStories (snd (updateFanficStory 9 retitle alice sampleStore)) ! 0) = 9"
    using list_all2_nthD [OF st, of 0]
    by (simp add: sampleStore_rows retitle_def field_def aliceStory_def)
  have 4: "chapter_title
             (rows_FanficChapters (snd (updateFanficChapter 9 rewrite alice sampleStore)) ! 0)
             = Some ''One''
           \<and> chapter_updatedAt
               (rows_FanficChapters (snd (updateFanficChapter 9 rewrite alice sampleStore)) ! 0)
               = 9"
    using list_all2_nthD [OF ch, of 0]
    by (simp add: sampleStore_rows rewrite_def field_def aliceChapter_def)
  from 1 2 3 4 show ?thesis by blast
qed

end
